theory Spec2Isabelle
  imports Main "HOL-Library.Word"
begin

section \<open>Data model\<close>

text \<open>
  Identifiers are MongoDB ObjectIds (users, topics, messages) and socket.io socket ids;
  only their equality matters, so they are natural numbers. Dates are milliseconds since
  the epoch. A JavaScript string is a sequence of UTF-16 code units, and \<open>length\<close> counts
  code units, as \<open>String.prototype.length\<close> does.
\<close>

type_synonym uid = nat
type_synonym tid = nat
type_synonym mid = nat
type_synonym sid = nat
type_synonym time = int
type_synonym jsstring = "16 word list"

text \<open>
  \<open>String.prototype.trim\<close> removes leading and trailing WhiteSpace and LineTerminator
  code units of ECMAScript. The \<open>trim: true\<close> setter of a Mongoose string path calls the
  same function.
\<close>

definition is_ws :: "16 word \<Rightarrow> bool" where
  "is_ws c \<longleftrightarrow>
     c = 0x09 \<or> c = 0x0A \<or> c = 0x0B \<or> c = 0x0C \<or> c = 0x0D \<or> c = 0x20 \<or> c = 0xA0 \<or>
     c = 0x1680 \<or> (0x2000 \<le> c \<and> c \<le> 0x200A) \<or> c = 0x2028 \<or> c = 0x2029 \<or>
     c = 0x202F \<or> c = 0x205F \<or> c = 0x3000 \<or> c = 0xFEFF"

definition trim :: "jsstring \<Rightarrow> jsstring" where
  "trim s = rev (dropWhile is_ws (rev (dropWhile is_ws s)))"

text \<open>\<open>models/Topic.js\<close>: the fields the handlers read or write.\<close>

record Topic =
  isPrivate :: bool
  creator :: uid
  members :: "uid list"
  admins :: "uid list"
  topic_updatedAt :: time

text \<open>\<open>models/Message.js\<close>. The schema option \<open>timestamps: true\<close> adds \<open>createdAt\<close>
  and \<open>updatedAt\<close>.\<close>

datatype messageType = TextType | ImageType | FileType

record reaction =
  r_user :: uid
  r_emoji :: jsstring
  r_createdAt :: time

record Message =
  content :: jsstring
  sender :: uid
  topic :: tid
  messageType :: messageType
  isEdited :: bool
  editedAt :: "time option"
  replyTo :: "mid option"
  reactions :: "reaction list"
  createdAt :: time
  updatedAt :: time

text \<open>The authenticated socket: \<open>socket.id\<close> and the \<open>socket.user\<close> document that
  \<open>authenticateSocket\<close> attached.\<close>

record socket =
  sock_id :: sid
  user_id :: uid
  username :: jsstring

text \<open>
  Events the server emits. \<open>Error\<close> and \<open>MessageError\<close> carry the message text of the
  source. An emission is the set of sockets an event is sent to, and the event:
  \<open>socket.emit\<close> reaches the socket itself, \<open>socket.to(room).emit\<close> the room without
  the socket, \<open>io.in(room).emit\<close> the whole room. An event carries the stored document;
  the user documents that \<open>populate\<close> puts in place of the ids are left out.
\<close>

datatype event =
    UserJoinedTopic uid jsstring
  | UserLeftTopic uid jsstring
  | NewMessage mid Message
  | UserTyping uid jsstring tid
  | UserStopTyping uid jsstring tid
  | MessageReactionUpdated mid "reaction list"
  | Error string
  | MessageError string

type_synonym emission = "sid set \<times> event"

text \<open>
  The state of the server process: the two collections, the rooms of the socket.io
  adapter (room name to sockets), the \<open>currentTopic\<close> property of each socket, and the
  log of everything emitted so far.
\<close>

record server =
  topics :: "tid \<rightharpoonup> Topic"
  messages :: "mid \<rightharpoonup> Message"
  rooms :: "tid \<Rightarrow> sid set"
  currentTopic :: "sid \<rightharpoonup> tid"
  outbox :: "emission list"

definition emit :: "sid set \<Rightarrow> event \<Rightarrow> server \<Rightarrow> server" where
  "emit to e s = s\<lparr>outbox := outbox s @ [(to, e)]\<rparr>"

text \<open>The access check every handler repeats:
  \<open>!topic.isPrivate || topic.members.includes(user._id)\<close>.\<close>

definition hasAccess :: "Topic \<Rightarrow> uid \<Rightarrow> bool" where
  "hasAccess t u \<longleftrightarrow> \<not> isPrivate t \<or> u \<in> set (members t)"

section \<open>Socket handlers of \<open>server.js\<close>\<close>

text \<open>
  Each handler run is one step from server state to server state; what it emits is
  appended to \<open>outbox\<close>. The store is taken to answer every query (a rejected promise
  of the database driver is outside the model).
\<close>

text \<open>\<open>socket.on('join-topic')\<close>.\<close>

definition join_topic :: "socket \<Rightarrow> tid \<Rightarrow> server \<Rightarrow> server" where
  "join_topic sock topicId s =
     (case topics s topicId of
        None \<Rightarrow> emit {sock_id sock} (Error ''Topic not found'') s
      | Some t \<Rightarrow>
          if \<not> hasAccess t (user_id sock)
          then emit {sock_id sock} (Error ''Access denied to this topic'') s
          else
            let s' = s\<lparr>rooms := (rooms s)(topicId := insert (sock_id sock) (rooms s topicId)),
                        currentTopic := (currentTopic s)(sock_id sock \<mapsto> topicId)\<rparr>
            in emit (rooms s' topicId - {sock_id sock})
                 (UserJoinedTopic (user_id sock) (username sock)) s')"

text \<open>\<open>socket.on('leave-topic')\<close>: \<open>socket.currentTopic\<close> is not touched.\<close>

definition leave_topic :: "socket \<Rightarrow> tid \<Rightarrow> server \<Rightarrow> server" where
  "leave_topic sock topicId s =
     (let s' = s\<lparr>rooms := (rooms s)(topicId := rooms s topicId - {sock_id sock})\<rparr>
      in emit (rooms s' topicId - {sock_id sock})
           (UserLeftTopic (user_id sock) (username sock)) s')"

text \<open>
  The validators of the \<open>content\<close> path of the message schema, run by \<open>save()\<close> on the
  stored (trimmed) value: \<open>required\<close> rejects the empty string, \<open>maxLength: 1000\<close> a longer
  one.
\<close>

definition valid_content :: "jsstring \<Rightarrow> bool" where
  "valid_content c \<longleftrightarrow> c \<noteq> [] \<and> length c \<le> 1000"

text \<open>
  \<open>socket.on('send-message')\<close> with \<open>data = {content, topicId, replyTo}\<close>. \<open>newId\<close> is the
  \<open>_id\<close> that \<open>new Message\<close> generates, \<open>saved\<close> the clock at \<open>message.save()\<close> (which
  sets both timestamps), \<open>touched\<close> the clock at \<open>topic.updatedAt = new Date()\<close>. The
  \<open>catch\<close> branch is reached when validation rejects the document.
\<close>

definition send_message ::
  "socket \<Rightarrow> jsstring \<Rightarrow> tid \<Rightarrow> mid option \<Rightarrow> mid \<Rightarrow> time \<Rightarrow> time \<Rightarrow> server \<Rightarrow> server" where
  "send_message sock content' topicId replyTo' newId saved touched s =
     (if content' = [] \<or> trim content' = []
      then emit {sock_id sock} (MessageError ''Message content cannot be empty'') s
      else if length content' > 1000
      then emit {sock_id sock} (MessageError ''Message too long (max 1000 characters)'') s
      else case topics s topicId of
        None \<Rightarrow> emit {sock_id sock} (MessageError ''Topic not found'') s
      | Some t \<Rightarrow>
          if \<not> hasAccess t (user_id sock)
          then emit {sock_id sock} (MessageError ''Access denied to this topic'') s
          else
            let message = \<lparr>content = trim content', sender = user_id sock, topic = topicId,
                             messageType = TextType, isEdited = False, editedAt = None,
                             replyTo = replyTo', reactions = [],
                             createdAt = saved, updatedAt = saved\<rparr>
            in if \<not> valid_content (content message)
               then emit {sock_id sock} (MessageError ''Failed to send message'') s
               else emit (rooms s topicId) (NewMessage newId message)
                      (s\<lparr>messages := (messages s)(newId \<mapsto> message),
                         topics := (topics s)(topicId \<mapsto> t\<lparr>topic_updatedAt := touched\<rparr>)\<rparr>))"

text \<open>\<open>socket.on('typing-start')\<close> and \<open>socket.on('typing-stop')\<close>: the server keeps no
  typing entry and arms no timer.\<close>

definition typing_start :: "socket \<Rightarrow> tid \<Rightarrow> server \<Rightarrow> server" where
  "typing_start sock topicId s =
     emit (rooms s topicId - {sock_id sock}) (UserTyping (user_id sock) (username sock) topicId) s"

definition typing_stop :: "socket \<Rightarrow> tid \<Rightarrow> server \<Rightarrow> server" where
  "typing_stop sock topicId s =
     emit (rooms s topicId - {sock_id sock}) (UserStopTyping (user_id sock) (username sock) topicId) s"

text \<open>
  \<open>socket.on('disconnect')\<close>. socket.io has removed the socket from every room when the
  event fires; the socket object, with its \<open>currentTopic\<close>, is gone afterwards.
\<close>

definition disconnect :: "socket \<Rightarrow> server \<Rightarrow> server" where
  "disconnect sock s =
     (let s' = s\<lparr>rooms := (\<lambda>r. rooms s r - {sock_id sock}),
                 currentTopic := (currentTopic s)(sock_id sock := None)\<rparr>
      in case currentTopic s (sock_id sock) of
           None \<Rightarrow> s'
         | Some t \<Rightarrow> emit (rooms s' t - {sock_id sock})
                      (UserLeftTopic (user_id sock) (username sock)) s')"

subsection \<open>Reactions\<close>

text \<open>
  The find-then-filter-or-push block that the \<open>add-reaction\<close> socket handler and the
  \<open>addReaction\<close> controller share. \<open>now\<close> is the \<open>Date.now\<close> default of the pushed
  subdocument's \<open>createdAt\<close>.
\<close>

definition same_reaction :: "uid \<Rightarrow> jsstring \<Rightarrow> reaction \<Rightarrow> bool" where
  "same_reaction u e r \<longleftrightarrow> r_user r = u \<and> r_emoji r = e"

definition toggle_reaction :: "uid \<Rightarrow> jsstring \<Rightarrow> time \<Rightarrow> reaction list \<Rightarrow> reaction list" where
  "toggle_reaction u e now rs =
     (case find (same_reaction u e) rs of
        Some existingReaction \<Rightarrow> filter (\<lambda>r. \<not> same_reaction u e r) rs
      | None \<Rightarrow> rs @ [\<lparr>r_user = u, r_emoji = e, r_createdAt = now\<rparr>])"

text \<open>\<open>socket.on('add-reaction')\<close> in \<open>server.js\<close>. \<open>now\<close> is the clock at the push,
  \<open>saved\<close> the clock at \<open>message.save()\<close>.\<close>

definition add_reaction :: "socket \<Rightarrow> mid \<Rightarrow> jsstring \<Rightarrow> time \<Rightarrow> time \<Rightarrow> server \<Rightarrow> server" where
  "add_reaction sock messageId emoji now saved s =
     (if emoji = [] \<or> length emoji > 10 then s
      else case messages s messageId of
        None \<Rightarrow> emit {sock_id sock} (Error ''Message not found'') s
      | Some message \<Rightarrow>
          let message' = message\<lparr>reactions := toggle_reaction (user_id sock) emoji now (reactions message),
                                  updatedAt := saved\<rparr>
          in emit (rooms s (topic message))
               (MessageReactionUpdated messageId (reactions message'))
               (s\<lparr>messages := (messages s)(messageId \<mapsto> message')\<rparr>))"

section \<open>Controllers of \<open>messageController.js\<close>\<close>

text \<open>Responses of the HTTP controllers: the status code with the message text, or the
  success body. \<open>ServerError\<close> is the \<open>catch\<close> branch (status 500 with the text of the
  exception).\<close>

datatype response =
    EditOk Message
  | DeleteOk
  | ReactionOk "reaction list"
  | Failure nat string
  | ServerError

text \<open>\<open>exports.addReaction\<close> in \<open>messageController.js\<close>; \<open>u\<close> is \<open>req.user._id\<close>.\<close>

definition addReaction :: "uid \<Rightarrow> mid \<Rightarrow> jsstring \<Rightarrow> time \<Rightarrow> time \<Rightarrow> server \<Rightarrow> server \<times> response" where
  "addReaction u messageId emoji now saved s =
     (case messages s messageId of
        None \<Rightarrow> (s, Failure 404 ''Message not found'')
      | Some message \<Rightarrow>
          let message' = message\<lparr>reactions := toggle_reaction u emoji now (reactions message),
                                  updatedAt := saved\<rparr>
          in (s\<lparr>messages := (messages s)(messageId \<mapsto> message')\<rparr>, ReactionOk (reactions message')))"

text \<open>
  \<open>exports.editMessage\<close>. \<open>u\<close> is \<open>req.user._id\<close>, \<open>content'\<close> the \<open>content\<close> of the
  request body, \<open>now\<close> the value of \<open>Date.now()\<close>, \<open>edited\<close> the clock at
  \<open>message.editedAt = new Date()\<close>, \<open>saved\<close> the clock at \<open>message.save()\<close>. The
  assignment to \<open>message.content\<close> goes through the schema's \<open>trim\<close> setter; \<open>save()\<close>
  throws when validation fails, which the \<open>catch\<close> turns into status 500.
\<close>

definition editMessage ::
  "uid \<Rightarrow> mid \<Rightarrow> jsstring \<Rightarrow> time \<Rightarrow> time \<Rightarrow> time \<Rightarrow> server \<Rightarrow> server \<times> response" where
  "editMessage u messageId content' now edited saved s =
     (case messages s messageId of
        None \<Rightarrow> (s, Failure 404 ''Message not found'')
      | Some message \<Rightarrow>
          if sender message \<noteq> u then (s, Failure 403 ''Can only edit your own messages'')
          else
            let fifteenMinutesAgo = now - 15 * 60 * 1000
            in if createdAt message < fifteenMinutesAgo
               then (s, Failure 400 ''Message is too old to edit'')
               else
                 let message' = message\<lparr>content := trim content', isEdited := True,
                                         editedAt := Some edited\<rparr>
                 in if \<not> valid_content (content message') then (s, ServerError)
                    else
                      let message'' = message'\<lparr>updatedAt := saved\<rparr>
                      in (s\<lparr>messages := (messages s)(messageId \<mapsto> message'')\<rparr>,
                          EditOk message''))"

text \<open>
  \<open>router.put('/:messageId', [body('content').isLength(...).trim()], editMessage)\<close> in
  \<open>routes/messages.js\<close>: the sanitizer of the chain replaces \<open>req.body.content\<close> by its
  trimmed value, and \<open>editMessage\<close> never consults \<open>validationResult\<close>.
\<close>

definition put_message ::
  "uid \<Rightarrow> mid \<Rightarrow> jsstring \<Rightarrow> time \<Rightarrow> time \<Rightarrow> time \<Rightarrow> server \<Rightarrow> server \<times> response" where
  "put_message u messageId body now edited saved s =
     editMessage u messageId (trim body) now edited saved s"

text \<open>
  \<open>exports.deleteMessage\<close>. When the topic of the message no longer exists,
  \<open>topic.admins\<close> throws on \<open>null\<close> and the \<open>catch\<close> answers with status 500. The
  controller has no access to \<open>io\<close> and emits nothing.
\<close>

definition deleteMessage :: "uid \<Rightarrow> mid \<Rightarrow> server \<Rightarrow> server \<times> response" where
  "deleteMessage u messageId s =
     (case messages s messageId of
        None \<Rightarrow> (s, Failure 404 ''Message not found'')
      | Some message \<Rightarrow>
          (case topics s (topic message) of
             None \<Rightarrow> (s, ServerError)
           | Some t \<Rightarrow>
               let isOwner = (sender message = u);
                   isAdmin = (u \<in> set (admins t))
               in if \<not> isOwner \<and> \<not> isAdmin
                  then (s, Failure 403 ''Not authorized to delete this message'')
                  else (s\<lparr>messages := (messages s)(messageId := None)\<rparr>, DeleteOk)))"

section \<open>Commands of a socket, run in sequence\<close>

text \<open>
  The events a socket sends to the server. \<open>run\<close> handles them one after the other, each
  handler from its first statement to its last before the next event is taken up. The
  handlers of \<open>join-topic\<close>, \<open>send-message\<close> and \<open>add-reaction\<close> suspend at their
  \<open>await\<close>s, so the server can also interleave two of them (two reactions that both
  read a message before either saves it); such overlapping executions are not runs of
  this model, and what is proved of \<open>run\<close> is proved of events handled in sequence.
\<close>

datatype command =
    JoinTopic tid
  | LeaveTopic tid
  | SendMessage jsstring tid "mid option" mid time time
  | TypingStart tid
  | TypingStop tid
  | AddReaction mid jsstring time time
  | Disconnect

fun handle :: "socket \<Rightarrow> command \<Rightarrow> server \<Rightarrow> server" where
  "handle sock (JoinTopic t) s = join_topic sock t s"
| "handle sock (LeaveTopic t) s = leave_topic sock t s"
| "handle sock (SendMessage c t r newId saved touched) s = send_message sock c t r newId saved touched s"
| "handle sock (TypingStart t) s = typing_start sock t s"
| "handle sock (TypingStop t) s = typing_stop sock t s"
| "handle sock (AddReaction m e now saved) s = add_reaction sock m e now saved s"
| "handle sock Disconnect s = disconnect sock s"

definition run :: "(socket \<times> command) list \<Rightarrow> server \<Rightarrow> server" where
  "run cs s = fold (\<lambda>(sock, c). handle sock c) cs s"

fun is_stop_typing :: "emission \<Rightarrow> bool" where
  "is_stop_typing (to, UserStopTyping u n t) = True"
| "is_stop_typing (to, e) = False"

fun is_typing_stop_command :: "socket \<times> command \<Rightarrow> bool" where
  "is_typing_stop_command (sock, TypingStop t) = True"
| "is_typing_stop_command (sock, c) = False"

definition stop_typing_count :: "server \<Rightarrow> nat" where
  "stop_typing_count s = length (filter is_stop_typing (outbox s))"

section \<open>Typing indicator of the client (\<open>MessageInput.jsx\<close>)\<close>

text \<open>
  The two refs of the component, and \<open>socketRef\<close> of \<open>SocketContext.jsx\<close>, survive
  renders; \<open>typingTimeoutRef\<close> records whether a timeout is pending. \<open>connected\<close> and
  \<open>currentTopic\<close> are values of the render whose closure runs, so they are arguments of
  each call. The callback of the 3000 ms timeout is \<open>handleTypingStop\<close>.
\<close>

record refs =
  socketRef :: bool
  isTypingRef :: bool
  typingTimeoutRef :: bool

record render =
  connected :: bool
  chatTopic :: "tid option"

datatype client_event = EmitTypingStart tid | EmitTypingStop tid

definition startTyping :: "render \<Rightarrow> refs \<Rightarrow> tid \<Rightarrow> client_event list" where
  "startTyping env r topicId = (if socketRef r \<and> connected env then [EmitTypingStart topicId] else [])"

definition stopTyping :: "render \<Rightarrow> refs \<Rightarrow> tid \<Rightarrow> client_event list" where
  "stopTyping env r topicId = (if socketRef r \<and> connected env then [EmitTypingStop topicId] else [])"

definition handleTypingStart :: "render \<Rightarrow> refs \<Rightarrow> refs \<times> client_event list" where
  "handleTypingStart env r =
     (case chatTopic env of
        Some t \<Rightarrow>
          if \<not> isTypingRef r \<and> connected env
          then (r\<lparr>isTypingRef := True, typingTimeoutRef := True\<rparr>, startTyping env r t)
          else (r\<lparr>typingTimeoutRef := True\<rparr>, [])
      | None \<Rightarrow> (r\<lparr>typingTimeoutRef := True\<rparr>, []))"

definition handleTypingStop :: "render \<Rightarrow> refs \<Rightarrow> refs \<times> client_event list" where
  "handleTypingStop env r =
     (case chatTopic env of
        Some t \<Rightarrow>
          if isTypingRef r \<and> connected env
          then (r\<lparr>isTypingRef := False, typingTimeoutRef := False\<rparr>, stopTyping env r t)
          else (r\<lparr>typingTimeoutRef := False\<rparr>, [])
      | None \<Rightarrow> (r\<lparr>typingTimeoutRef := False\<rparr>, []))"

text \<open>What the server does with the events a client sent over socket \<open>sock\<close>.\<close>

fun client_command :: "client_event \<Rightarrow> command" where
  "client_command (EmitTypingStart t) = TypingStart t"
| "client_command (EmitTypingStop t) = TypingStop t"

definition deliver :: "socket \<Rightarrow> client_event list \<Rightarrow> server \<Rightarrow> server" where
  "deliver sock es s = run (map (\<lambda>e. (sock, client_command e)) es) s"

text \<open>
  \<open>handleTypingStop\<close> called several times in a row, each time by the closure of some
  render: the timeout, an explicit stop (empty input, a sent message) and the cleanup at
  unmount all call this function. The events sent are collected in order.
\<close>

fun stop_all :: "render list \<Rightarrow> refs \<Rightarrow> refs \<times> client_event list" where
  "stop_all [] r = (r, [])"
| "stop_all (env # envs) r =
     (fst (stop_all envs (fst (handleTypingStop env r))),
      snd (handleTypingStop env r) @ snd (stop_all envs (fst (handleTypingStop env r))))"

section \<open>Notions used in the statements\<close>

text \<open>The reaction list of a stored message.\<close>

definition stored_reactions :: "server \<Rightarrow> mid \<Rightarrow> reaction list option" where
  "stored_reactions s messageId = map_option reactions (messages s messageId)"

text \<open>
  The same socket sending \<open>add-reaction\<close> for the same message and emoji several times,
  handled in sequence; each element gives the two clock readings of one handling. The
  second function is the same for requests to the controller.
\<close>

definition react_run :: "socket \<Rightarrow> mid \<Rightarrow> jsstring \<Rightarrow> (time \<times> time) list \<Rightarrow> server \<Rightarrow> server" where
  "react_run sock messageId emoji ts s =
     run (map (\<lambda>(now, saved). (sock, AddReaction messageId emoji now saved)) ts) s"

definition react_requests :: "uid \<Rightarrow> mid \<Rightarrow> jsstring \<Rightarrow> (time \<times> time) list \<Rightarrow> server \<Rightarrow> server" where
  "react_requests u messageId emoji ts s =
     fold (\<lambda>(now, saved) s'. fst (addReaction u messageId emoji now saved s')) ts s"

text \<open>The aggregate of a reaction list: which user has which emoji on the message.\<close>

definition reaction_keys :: "reaction list \<Rightarrow> (uid \<times> jsstring) set" where
  "reaction_keys rs = set (map (\<lambda>r. (r_user r, r_emoji r)) rs)"

text \<open>Reacting repeatedly with the same pair, once at each of the given times.\<close>

definition react_times :: "uid \<Rightarrow> jsstring \<Rightarrow> time list \<Rightarrow> reaction list \<Rightarrow> reaction list" where
  "react_times u e ts rs = fold (toggle_reaction u e) ts rs"

text \<open>The reactions of other (user, emoji) pairs, in list order.\<close>

definition other_reactions :: "uid \<Rightarrow> jsstring \<Rightarrow> reaction list \<Rightarrow> reaction list" where
  "other_reactions u e rs = filter (\<lambda>r. \<not> same_reaction u e r) rs"

text \<open>A message with every field except the reaction list and \<open>updatedAt\<close>.\<close>

definition frame :: "Message \<Rightarrow> jsstring \<times> uid \<times> tid \<times> messageType \<times> bool \<times> time option \<times> mid option \<times> time" where
  "frame m = (content m, sender m, topic m, messageType m, isEdited m, editedAt m, replyTo m, createdAt m)"

section \<open>Example data\<close>

definition alice :: socket where
  "alice = \<lparr>sock_id = 10, user_id = 1, username = [0x61, 0x6C]\<rparr>"

definition bob :: socket where
  "bob = \<lparr>sock_id = 11, user_id = 2, username = [0x62, 0x6F]\<rparr>"

definition lobby :: Topic where
  "lobby = \<lparr>isPrivate = False, creator = 2, members = [2], admins = [2], topic_updatedAt = 0\<rparr>"

definition vault :: Topic where
  "vault = \<lparr>isPrivate = True, creator = 2, members = [2], admins = [2], topic_updatedAt = 0\<rparr>"

definition emoji_plus :: jsstring where
  "emoji_plus = [0x2B]"

definition hi :: jsstring where
  "hi = [0x68, 0x69]"

definition hello :: Message where
  "hello = \<lparr>content = hi, sender = 1, topic = 1, messageType = TextType, isEdited = False,
             editedAt = None, replyTo = None,
             reactions = [\<lparr>r_user = 1, r_emoji = emoji_plus, r_createdAt = 50\<rparr>,
                          \<lparr>r_user = 2, r_emoji = emoji_plus, r_createdAt = 60\<rparr>],
             createdAt = 1000, updatedAt = 1000\<rparr>"

text \<open>The letter \<open>a\<close> followed by a thousand spaces: 1001 code units, one after trimming.\<close>

definition padded :: jsstring where
  "padded = 0x61 # replicate 1000 0x20"

text \<open>Two topics, one message, Bob's socket joined to topic 1, Alice's socket in no room.\<close>

definition demo :: server where
  "demo = \<lparr>topics = [1 \<mapsto> lobby, 2 \<mapsto> vault], messages = [7 \<mapsto> hello],
            rooms = (\<lambda>r. {})(1 := {11}), currentTopic = [11 \<mapsto> 1], outbox = []\<rparr>"

section \<open>The reaction toggle\<close>

lemma toggle_present:
  "\<exists>r \<in> set rs. same_reaction u e r \<Longrightarrow>
   toggle_reaction u e t rs = filter (\<lambda>r. \<not> same_reaction u e r) rs"
  by (auto simp: toggle_reaction_def find_None_iff split: option.splits)

lemma toggle_absent:
  "\<forall>r \<in> set rs. \<not> same_reaction u e r \<Longrightarrow>
   toggle_reaction u e t rs = rs @ [\<lparr>r_user = u, r_emoji = e, r_createdAt = t\<rparr>]"
  by (auto simp: toggle_reaction_def find_None_iff split: option.splits)

lemma same_new: "same_reaction u e \<lparr>r_user = u, r_emoji = e, r_createdAt = t\<rparr>"
  by (simp add: same_reaction_def)

lemma filter_absent:
  "\<forall>r \<in> set rs. \<not> same_reaction u e r \<Longrightarrow> filter (\<lambda>r. \<not> same_reaction u e r) rs = rs"
  by (induction rs) auto

lemma toggle_twice_absent:
  assumes "\<forall>r \<in> set rs. \<not> same_reaction u e r"
  shows "toggle_reaction u e t2 (toggle_reaction u e t1 rs) = rs"
proof -
  let ?n = "\<lparr>r_user = u, r_emoji = e, r_createdAt = t1\<rparr>"
  have 1: "toggle_reaction u e t1 rs = rs @ [?n]"
    using assms by (rule toggle_absent)
  have 2: "\<exists>r \<in> set (rs @ [?n]). same_reaction u e r"
    by (simp add: same_new)
  have "toggle_reaction u e t2 (rs @ [?n]) = filter (\<lambda>r. \<not> same_reaction u e r) (rs @ [?n])"
    using 2 by (rule toggle_present)
  also have "\<dots> = rs"
    using assms by (simp add: same_new filter_absent)
  finally show ?thesis
    by (simp only: 1)
qed

lemma toggle_twice_present:
  assumes "\<exists>r \<in> set rs. same_reaction u e r"
  shows "toggle_reaction u e t2 (toggle_reaction u e t1 rs) =
         filter (\<lambda>r. \<not> same_reaction u e r) rs @ [\<lparr>r_user = u, r_emoji = e, r_createdAt = t2\<rparr>]"
proof -
  let ?f = "filter (\<lambda>r. \<not> same_reaction u e r) rs"
  have 1: "toggle_reaction u e t1 rs = ?f"
    using assms by (rule toggle_present)
  have 2: "\<forall>r \<in> set ?f. \<not> same_reaction u e r"
    by simp
  show ?thesis
    unfolding 1 using 2 by (rule toggle_absent)
qed

lemma keys_filter:
  "reaction_keys (filter (\<lambda>r. \<not> same_reaction u e r) rs) = reaction_keys rs - {(u, e)}"
  by (induction rs) (auto simp: reaction_keys_def same_reaction_def)

lemma keys_present: "(\<exists>r \<in> set rs. same_reaction u e r) \<longleftrightarrow> (u, e) \<in> reaction_keys rs"
  by (auto simp: reaction_keys_def same_reaction_def)

lemma keys_toggle:
  "reaction_keys (toggle_reaction u e t rs) =
     (if (u, e) \<in> reaction_keys rs then reaction_keys rs - {(u, e)} else insert (u, e) (reaction_keys rs))"
proof (cases "\<exists>r \<in> set rs. same_reaction u e r")
  case True
  then show ?thesis using keys_present[of rs u e] by (simp add: toggle_present keys_filter)
next
  case False
  then have "\<forall>r \<in> set rs. \<not> same_reaction u e r" by simp
  then show ?thesis using keys_present[of rs u e] by (simp add: toggle_absent) (simp add: reaction_keys_def)
qed

lemma keys_toggle_twice:
  "reaction_keys (toggle_reaction u e t2 (toggle_reaction u e t1 rs)) = reaction_keys rs"
  by (auto simp: keys_toggle)

lemma keys_react_even:
  "even (length ts) \<Longrightarrow> reaction_keys (react_times u e ts rs) = reaction_keys rs"
proof (induction ts arbitrary: rs rule: induct_list012)
  case 1
  then show ?case by (simp add: react_times_def)
next
  case (2 x)
  then show ?case by simp
next
  case (3 x y zs)
  then show ?case by (simp add: react_times_def keys_toggle_twice)
qed

lemma add_reaction_stored:
  assumes "messages s messageId = Some m" "emoji \<noteq> []" "length emoji \<le> 10"
  shows "add_reaction sock messageId emoji now saved s =
           s\<lparr>messages := (messages s)(messageId \<mapsto>
                m\<lparr>reactions := toggle_reaction (user_id sock) emoji now (reactions m),
                  updatedAt := saved\<rparr>),
             outbox := outbox s @ [(rooms s (topic m), MessageReactionUpdated messageId
                (toggle_reaction (user_id sock) emoji now (reactions m)))]\<rparr>"
  using assms by (simp add: add_reaction_def emit_def Let_def)

lemma add_reaction_ignored:
  "emoji = [] \<or> length emoji > 10 \<Longrightarrow> add_reaction sock messageId emoji now saved s = s"
  by (auto simp: add_reaction_def)

lemma stored_add_reaction:
  assumes "stored_reactions s messageId = Some rs" "emoji \<noteq> []" "length emoji \<le> 10"
  shows "stored_reactions (add_reaction sock messageId emoji now saved s) messageId =
           Some (toggle_reaction (user_id sock) emoji now rs)"
proof -
  obtain m where m: "messages s messageId = Some m" "reactions m = rs"
    using assms(1) by (auto simp: stored_reactions_def)
  show ?thesis
    by (simp add: add_reaction_stored[OF m(1) assms(2,3)] stored_reactions_def m(2))
qed

lemma stored_addReaction:
  assumes "stored_reactions s messageId = Some rs"
  shows "stored_reactions (fst (addReaction u messageId emoji now saved s)) messageId =
           Some (toggle_reaction u emoji now rs)"
    and "snd (addReaction u messageId emoji now saved s) = ReactionOk (toggle_reaction u emoji now rs)"
  using assms by (auto simp: stored_reactions_def addReaction_def Let_def)

lemma stored_react_run:
  assumes "emoji \<noteq> []" "length emoji \<le> 10"
  shows "stored_reactions s messageId = Some rs \<Longrightarrow>
         stored_reactions (react_run sock messageId emoji ts s) messageId =
           Some (react_times (user_id sock) emoji (map fst ts) rs)"
proof (induction ts arbitrary: s rs)
  case Nil
  then show ?case by (simp add: react_run_def run_def react_times_def)
next
  case (Cons a ts)
  obtain now saved where a: "a = (now, saved)" by (cases a)
  have step: "react_run sock messageId emoji (a # ts) s =
              react_run sock messageId emoji ts (add_reaction sock messageId emoji now saved s)"
    by (simp add: react_run_def run_def a)
  have "stored_reactions (add_reaction sock messageId emoji now saved s) messageId =
          Some (toggle_reaction (user_id sock) emoji now rs)"
    using Cons.prems assms by (rule stored_add_reaction)
  then have "stored_reactions (react_run sock messageId emoji ts
                (add_reaction sock messageId emoji now saved s)) messageId =
          Some (react_times (user_id sock) emoji (map fst ts)
                 (toggle_reaction (user_id sock) emoji now rs))"
    by (rule Cons.IH)
  then show ?case
    unfolding step by (simp add: react_times_def a)
qed

lemma stored_react_requests:
  "stored_reactions s messageId = Some rs \<Longrightarrow>
   stored_reactions (react_requests u messageId emoji ts s) messageId =
     Some (react_times u emoji (map fst ts) rs)"
proof (induction ts arbitrary: s rs)
  case Nil
  then show ?case by (simp add: react_requests_def react_times_def)
next
  case (Cons a ts)
  obtain now saved where a: "a = (now, saved)" by (cases a)
  have step: "react_requests u messageId emoji (a # ts) s =
              react_requests u messageId emoji ts (fst (addReaction u messageId emoji now saved s))"
    by (simp add: react_requests_def a)
  have "stored_reactions (fst (addReaction u messageId emoji now saved s)) messageId =
          Some (toggle_reaction u emoji now rs)"
    using Cons.prems by (rule stored_addReaction(1))
  then have "stored_reactions (react_requests u messageId emoji ts
                (fst (addReaction u messageId emoji now saved s))) messageId =
          Some (react_times u emoji (map fst ts) (toggle_reaction u emoji now rs))"
    by (rule Cons.IH)
  then show ?case
    unfolding step by (simp add: react_times_def a)
qed

lemma toggle_twice_cases:
  "toggle_reaction u e t2 (toggle_reaction u e t1 rs) =
     (if \<exists>r \<in> set rs. same_reaction u e r
      then other_reactions u e rs @ [\<lparr>r_user = u, r_emoji = e, r_createdAt = t2\<rparr>]
      else rs)"
proof (cases "\<exists>r \<in> set rs. same_reaction u e r")
  case True
  then show ?thesis
    using toggle_twice_present[of rs u e t2 t1] by (simp add: other_reactions_def)
next
  case False
  then have "\<forall>r \<in> set rs. \<not> same_reaction u e r" by simp
  then have "toggle_reaction u e t2 (toggle_reaction u e t1 rs) = rs"
    by (rule toggle_twice_absent)
  then show ?thesis using False by simp
qed

text \<open>
  C5, in the form that holds of the code. For a stored message and reactions handled one
  after the other, each from its lookup to its save. A reaction sent over the socket with
  an emoji of 1 to 10 code units, and a reaction requested from the controller with any
  emoji, stores the toggled list: every reaction of the (user, emoji) pair is removed
  when one exists, and one is appended when none exists. The socket handler changes
  nothing when the emoji is empty or longer than 10 code units. Two reactions with the
  same pair store the very list again when the pair was absent; when it was present they
  store the other reactions in their order followed by one fresh reaction of the pair. The
  set of (user, emoji) pairs stored after any even number of reactions with the same pair
  is the set stored before.
\<close>

theorem react_in_sequence:
  assumes "messages s messageId = Some m" and "emoji \<noteq> []" and "length emoji \<le> 10"
  shows
    "stored_reactions (add_reaction sock messageId emoji t1 v1 s) messageId =
       Some (toggle_reaction (user_id sock) emoji t1 (reactions m)) \<and>
     stored_reactions (fst (addReaction u messageId e t1 v1 s)) messageId =
       Some (toggle_reaction u e t1 (reactions m)) \<and>
     ((\<exists>r \<in> set (reactions m). same_reaction u e r) \<longrightarrow>
        toggle_reaction u e t1 (reactions m) = other_reactions u e (reactions m)) \<and>
     ((\<forall>r \<in> set (reactions m). \<not> same_reaction u e r) \<longrightarrow>
        toggle_reaction u e t1 (reactions m) =
          reactions m @ [\<lparr>r_user = u, r_emoji = e, r_createdAt = t1\<rparr>]) \<and>
     (e = [] \<or> length e > 10 \<longrightarrow> add_reaction sock messageId e t1 v1 s = s) \<and>
     stored_reactions (add_reaction sock messageId emoji t2 v2
         (add_reaction sock messageId emoji t1 v1 s)) messageId =
       Some (if \<exists>r \<in> set (reactions m). same_reaction (user_id sock) emoji r
             then other_reactions (user_id sock) emoji (reactions m) @
                    [\<lparr>r_user = user_id sock, r_emoji = emoji, r_createdAt = t2\<rparr>]
             else reactions m) \<and>
     stored_reactions (fst (addReaction u messageId e t2 v2
         (fst (addReaction u messageId e t1 v1 s)))) messageId =
       Some (if \<exists>r \<in> set (reactions m). same_reaction u e r
             then other_reactions u e (reactions m) @ [\<lparr>r_user = u, r_emoji = e, r_createdAt = t2\<rparr>]
             else reactions m) \<and>
     (even (length ts) \<longrightarrow>
        map_option reaction_keys (stored_reactions (react_run sock messageId emoji ts s) messageId) =
          Some (reaction_keys (reactions m)) \<and>
        map_option reaction_keys (stored_reactions (react_requests u messageId e ts s) messageId) =
          Some (reaction_keys (reactions m)))"
proof -
  have st: "stored_reactions s messageId = Some (reactions m)"
    using assms(1) by (simp add: stored_reactions_def)
  have 1: "stored_reactions (add_reaction sock messageId emoji t1 v1 s) messageId =
       Some (toggle_reaction (user_id sock) emoji t1 (reactions m))"
    using st assms(2,3) by (rule stored_add_reaction)
  have 2: "stored_reactions (fst (addReaction u messageId e t1 v1 s)) messageId =
       Some (toggle_reaction u e t1 (reactions m))"
    using st by (rule stored_addReaction(1))
  have 3: "(\<exists>r \<in> set (reactions m). same_reaction u e r) \<longrightarrow>
        toggle_reaction u e t1 (reactions m) = other_reactions u e (reactions m)"
    using toggle_present[of "reactions m" u e t1] by (simp add: other_reactions_def)
  have 4: "(\<forall>r \<in> set (reactions m). \<not> same_reaction u e r) \<longrightarrow>
        toggle_reaction u e t1 (reactions m) =
          reactions m @ [\<lparr>r_user = u, r_emoji = e, r_createdAt = t1\<rparr>]"
    using toggle_absent[of "reactions m" u e t1] by blast
  have 5: "e = [] \<or> length e > 10 \<longrightarrow> add_reaction sock messageId e t1 v1 s = s"
    using add_reaction_ignored[of e sock messageId t1 v1 s] by blast
  have 6: "stored_reactions (add_reaction sock messageId emoji t2 v2
         (add_reaction sock messageId emoji t1 v1 s)) messageId =
       Some (if \<exists>r \<in> set (reactions m). same_reaction (user_id sock) emoji r
             then other_reactions (user_id sock) emoji (reactions m) @
                    [\<lparr>r_user = user_id sock, r_emoji = emoji, r_createdAt = t2\<rparr>]
             else reactions m)"
    using stored_add_reaction[OF 1 assms(2,3), of sock t2 v2]
    by (simp only: toggle_twice_cases)
  have 7: "stored_reactions (fst (addReaction u messageId e t2 v2
         (fst (addReaction u messageId e t1 v1 s)))) messageId =
       Some (if \<exists>r \<in> set (reactions m). same_reaction u e r
             then other_reactions u e (reactions m) @ [\<lparr>r_user = u, r_emoji = e, r_createdAt = t2\<rparr>]
             else reactions m)"
    using stored_addReaction(1)[OF 2, of u e t2 v2]
    by (simp only: toggle_twice_cases)
  have 8: "even (length ts) \<longrightarrow>
        map_option reaction_keys (stored_reactions (react_run sock messageId emoji ts s) messageId) =
          Some (reaction_keys (reactions m)) \<and>
        map_option reaction_keys (stored_reactions (react_requests u messageId e ts s) messageId) =
          Some (reaction_keys (reactions m))"
    using stored_react_run[OF assms(2,3) st, of sock ts] stored_react_requests[OF st, of u e ts]
      keys_react_even[of "map fst ts" "user_id sock" emoji "reactions m"]
      keys_react_even[of "map fst ts" u e "reactions m"]
    by simp
  show ?thesis
    using 1 2 3 4 5 6 7 8 by blast
qed

theorem react_in_sequence_witness:
  "stored_reactions (add_reaction alice 7 emoji_plus 70 71 demo) 7 =
     Some [\<lparr>r_user = 2, r_emoji = emoji_plus, r_createdAt = 60\<rparr>] \<and>
   stored_reactions (add_reaction alice 7 emoji_plus 80 81 (add_reaction alice 7 emoji_plus 70 71 demo)) 7 =
     Some [\<lparr>r_user = 2, r_emoji = emoji_plus, r_createdAt = 60\<rparr>,
           \<lparr>r_user = 1, r_emoji = emoji_plus, r_createdAt = 80\<rparr>] \<and>
   stored_reactions (fst (addReaction 3 7 emoji_plus 80 81 (fst (addReaction 3 7 emoji_plus 70 71 demo)))) 7 =
     Some (reactions hello) \<and>
   map_option reaction_keys
     (stored_reactions (react_run alice 7 emoji_plus [(70, 71), (80, 81), (90, 91), (100, 101)] demo) 7) =
     Some (reaction_keys (reactions hello))"
proof -
  have m: "messages demo 7 = Some hello"
    by (simp add: demo_def)
  have e: "emoji_plus \<noteq> []" "length emoji_plus \<le> 10"
    by (simp_all add: emoji_plus_def)
  have p: "\<exists>r \<in> set (reactions hello). same_reaction 1 emoji_plus r"
    by (simp add: hello_def same_reaction_def)
  have a: "\<forall>r \<in> set (reactions hello). \<not> same_reaction 3 emoji_plus r"
    by (simp add: hello_def same_reaction_def)
  have o: "other_reactions 1 emoji_plus (reactions hello) =
             [\<lparr>r_user = 2, r_emoji = emoji_plus, r_createdAt = 60\<rparr>]"
    by (simp add: hello_def other_reactions_def same_reaction_def)
  have u: "user_id alice = 1"
    by (simp add: alice_def)
  show ?thesis
    using react_in_sequence[OF m e, of alice 70 71 "user_id alice" emoji_plus 80 81
        "[(70, 71), (80, 81), (90, 91), (100, 101)]"]
      react_in_sequence[OF m e, of alice 70 71 3 emoji_plus 80 81 "[]"]
      p a
    unfolding u o by simp
qed

text \<open>
  Alice reacts twice to message 7, on which she and Bob have the same emoji: the stored
  list is not the one before, since her reaction now stands behind Bob's and carries the
  time of the second reaction. Her reaction with the empty emoji changes nothing.
\<close>

theorem react_twice_counterexample:
  "stored_reactions demo 7 =
     Some [\<lparr>r_user = 1, r_emoji = emoji_plus, r_createdAt = 50\<rparr>,
           \<lparr>r_user = 2, r_emoji = emoji_plus, r_createdAt = 60\<rparr>] \<and>
   stored_reactions (add_reaction alice 7 emoji_plus 80 81 (add_reaction alice 7 emoji_plus 70 71 demo)) 7 =
     Some [\<lparr>r_user = 2, r_emoji = emoji_plus, r_createdAt = 60\<rparr>,
           \<lparr>r_user = 1, r_emoji = emoji_plus, r_createdAt = 80\<rparr>] \<and>
   stored_reactions (add_reaction alice 7 emoji_plus 80 81 (add_reaction alice 7 emoji_plus 70 71 demo)) 7
     \<noteq> stored_reactions demo 7 \<and>
   add_reaction alice 7 [] 70 71 demo = demo"
  by (simp add: stored_reactions_def add_reaction_def toggle_reaction_def same_reaction_def
      emit_def Let_def demo_def hello_def alice_def emoji_plus_def)

section \<open>What a reaction leaves alone\<close>

lemma other_toggle:
  "other_reactions u e (toggle_reaction u e t rs) = other_reactions u e rs"
  by (simp add: toggle_reaction_def other_reactions_def same_new split: option.splits)

text \<open>
  C10. A reaction by a user with an emoji on a stored message, through the socket handler
  or through the controller, keeps the reactions of every other (user, emoji) pair in
  their original order, and changes no field of the message among content, sender, topic,
  message type, isEdited, editedAt, replyTo and createdAt.
\<close>

theorem add_reaction_frame:
  assumes "messages s messageId = Some m"
  shows "(\<exists>m'. messages (add_reaction sock messageId emoji now saved s) messageId = Some m' \<and>
            other_reactions (user_id sock) emoji (reactions m') =
              other_reactions (user_id sock) emoji (reactions m) \<and>
            frame m' = frame m) \<and>
         (\<exists>m'. messages (fst (addReaction u messageId emoji now saved s)) messageId = Some m' \<and>
            other_reactions u emoji (reactions m') = other_reactions u emoji (reactions m) \<and>
            frame m' = frame m)"
  using assms
  by (simp add: add_reaction_def addReaction_def emit_def Let_def other_toggle frame_def)

theorem add_reaction_frame_witness:
  "(\<exists>m'. messages (add_reaction bob 7 emoji_plus 70 71 demo) 7 = Some m' \<and>
      other_reactions 2 emoji_plus (reactions m') = [\<lparr>r_user = 1, r_emoji = emoji_plus, r_createdAt = 50\<rparr>] \<and>
      frame m' = frame hello)"
  using add_reaction_frame[of demo 7 hello bob emoji_plus 70 71 2]
  by (simp add: demo_def hello_def bob_def other_reactions_def same_reaction_def)

section \<open>Trimming\<close>

lemma length_trim: "length (trim c) \<le> length c"
proof -
  have "length (dropWhile is_ws (rev (dropWhile is_ws c))) \<le> length (rev (dropWhile is_ws c))"
    by (rule length_dropWhile_le)
  also have "\<dots> \<le> length c"
    by (simp add: length_dropWhile_le)
  finally show ?thesis
    by (simp add: trim_def)
qed

lemma dropWhile_head: "xs \<noteq> [] \<Longrightarrow> \<not> P (hd xs) \<Longrightarrow> dropWhile P xs = xs"
  by (cases xs) simp_all

lemma last_dropWhile: "dropWhile P ys \<noteq> [] \<Longrightarrow> last (dropWhile P ys) = last ys"
  by (induction ys) (auto split: if_splits)

lemma trim_head: "dropWhile is_ws (trim c) = trim c"
proof (cases "trim c = []")
  case True
  then show ?thesis by simp
next
  case False
  let ?a = "dropWhile is_ws c"
  let ?b = "dropWhile is_ws (rev ?a)"
  from False have b: "?b \<noteq> []" by (simp add: trim_def)
  have a: "?a \<noteq> []"
  proof
    assume e: "?a = []"
    have "?b = []" unfolding e by simp
    with b show False by simp
  qed
  have "hd (trim c) = last ?b"
    using b by (simp add: trim_def hd_rev)
  also have "\<dots> = last (rev ?a)"
    using b by (rule last_dropWhile)
  also have "\<dots> = hd ?a"
    using a by (simp add: last_rev)
  finally have "\<not> is_ws (hd (trim c))"
    using a hd_dropWhile[of is_ws c] by simp
  with False show ?thesis by (rule dropWhile_head)
qed

lemma trim_trim: "trim (trim c) = trim c"
proof -
  have "trim (trim c) = rev (dropWhile is_ws (rev (trim c)))"
    unfolding trim_def[of "trim c"] by (simp only: trim_head)
  also have "rev (trim c) = dropWhile is_ws (rev (dropWhile is_ws c))"
    by (simp add: trim_def)
  also have "rev (dropWhile is_ws (dropWhile is_ws (rev (dropWhile is_ws c)))) = trim c"
    by (simp add: trim_def)
  finally show ?thesis .
qed

lemma valid_trim: "trim c \<noteq> [] \<Longrightarrow> length c \<le> 1000 \<Longrightarrow> valid_content (trim c)"
  using length_trim[of c] by (simp add: valid_content_def)

section \<open>Joining a room\<close>

lemma join_topic_denied:
  assumes "topics s topicId = Some t" "\<not> hasAccess t (user_id sock)"
  shows "join_topic sock topicId s = emit {sock_id sock} (Error ''Access denied to this topic'') s"
  using assms by (simp add: join_topic_def)

lemma join_topic_granted:
  assumes "topics s topicId = Some t" "hasAccess t (user_id sock)"
  shows "join_topic sock topicId s =
           s\<lparr>rooms := (rooms s)(topicId := insert (sock_id sock) (rooms s topicId)),
             currentTopic := (currentTopic s)(sock_id sock \<mapsto> topicId),
             outbox := outbox s @ [(rooms s topicId - {sock_id sock},
                                    UserJoinedTopic (user_id sock) (username sock))]\<rparr>"
  using assms by (simp add: join_topic_def emit_def Let_def)

text \<open>
  C2. For an existing topic: when it is private and the user of the socket is not in its
  \<open>members\<close>, \<open>join-topic\<close> answers that socket with "Access denied to this topic" and
  changes neither the rooms nor \<open>currentTopic\<close>; when the user is a member, or the topic
  is not private, the socket is in the room afterwards, \<open>currentTopic\<close> is the topic, and
  the rest of the room is told that the user joined.
\<close>

theorem join_topic_private_access:
  assumes "topics s topicId = Some t"
  shows "(isPrivate t \<and> user_id sock \<notin> set (members t) \<longrightarrow>
            join_topic sock topicId s = emit {sock_id sock} (Error ''Access denied to this topic'') s \<and>
            rooms (join_topic sock topicId s) = rooms s \<and>
            currentTopic (join_topic sock topicId s) = currentTopic s) \<and>
         (\<not> isPrivate t \<or> user_id sock \<in> set (members t) \<longrightarrow>
            sock_id sock \<in> rooms (join_topic sock topicId s) topicId \<and>
            currentTopic (join_topic sock topicId s) (sock_id sock) = Some topicId \<and>
            outbox (join_topic sock topicId s) =
              outbox s @ [(rooms s topicId - {sock_id sock},
                           UserJoinedTopic (user_id sock) (username sock))])"
proof (cases "hasAccess t (user_id sock)")
  case True
  then show ?thesis
    using join_topic_granted[OF assms True] by (auto simp: hasAccess_def)
next
  case False
  then show ?thesis
    using join_topic_denied[OF assms False] by (auto simp: hasAccess_def emit_def)
qed

theorem join_topic_private_access_witness:
  "join_topic alice 2 demo = emit {10} (Error ''Access denied to this topic'') demo \<and>
   rooms (join_topic alice 2 demo) = rooms demo \<and>
   11 \<in> rooms (join_topic bob 2 demo) 2 \<and>
   10 \<in> rooms (join_topic alice 1 demo) 1"
  using join_topic_private_access[of demo 2 vault alice]
    join_topic_private_access[of demo 2 vault bob]
    join_topic_private_access[of demo 1 lobby alice]
  by (simp add: demo_def vault_def lobby_def alice_def bob_def hasAccess_def join_topic_def emit_def)

lemma rooms_emit: "rooms (emit A e s) = rooms s"
  by (simp add: emit_def)

lemma rooms_join_topic:
  "rooms (join_topic sock t s) = rooms s \<or>
   rooms (join_topic sock t s) = (rooms s)(t := insert (sock_id sock) (rooms s t))"
  by (simp add: join_topic_def emit_def Let_def split: option.splits)

lemma rooms_leave_topic:
  "rooms (leave_topic sock t s) = (rooms s)(t := rooms s t - {sock_id sock})"
  by (simp add: leave_topic_def emit_def Let_def)

lemma rooms_send_message:
  "rooms (send_message sock c t r newId saved touched s) = rooms s"
  by (simp add: send_message_def emit_def Let_def split: option.splits)

lemma rooms_add_reaction: "rooms (add_reaction sock m e now saved s) = rooms s"
  by (simp add: add_reaction_def emit_def Let_def split: option.splits)

lemma rooms_disconnect: "rooms (disconnect sock s) = (\<lambda>r. rooms s r - {sock_id sock})"
  by (simp add: disconnect_def emit_def Let_def split: option.splits)

lemma removed_by_handle:
  assumes "x \<in> rooms s r" and "x \<notin> rooms (handle sock c s) r"
  shows "x = sock_id sock \<and> (c = LeaveTopic r \<or> c = Disconnect)"
proof (cases c)
  case (JoinTopic t)
  then show ?thesis
    using assms rooms_join_topic[of sock t s] by (auto split: if_splits)
next
  case (LeaveTopic t)
  then show ?thesis
    using assms by (auto simp: rooms_leave_topic split: if_splits)
next
  case (SendMessage c' t r' newId saved touched)
  then show ?thesis
    using assms by (simp add: rooms_send_message)
next
  case (TypingStart t)
  then show ?thesis
    using assms by (simp add: typing_start_def rooms_emit)
next
  case (TypingStop t)
  then show ?thesis
    using assms by (simp add: typing_stop_def rooms_emit)
next
  case (AddReaction m e now saved)
  then show ?thesis
    using assms by (simp add: rooms_add_reaction)
next
  case Disconnect
  then show ?thesis
    using assms by (simp add: rooms_disconnect)
qed

lemma removed_by_run:
  "x \<in> rooms s r \<Longrightarrow> x \<notin> rooms (run cs s) r \<Longrightarrow>
   \<exists>sock c. (sock, c) \<in> set cs \<and> x = sock_id sock \<and> (c = LeaveTopic r \<or> c = Disconnect)"
proof (induction cs arbitrary: s)
  case Nil
  then show ?case by (simp add: run_def)
next
  case (Cons a cs)
  obtain sock c where a: "a = (sock, c)" by (cases a)
  have step: "run (a # cs) s = run cs (handle sock c s)"
    by (simp add: run_def a)
  show ?case
  proof (cases "x \<in> rooms (handle sock c s) r")
    case True
    then have "\<exists>sock c. (sock, c) \<in> set cs \<and> x = sock_id sock \<and> (c = LeaveTopic r \<or> c = Disconnect)"
      using Cons.prems(2) Cons.IH[of "handle sock c s"] by (simp add: step)
    then show ?thesis by auto
  next
    case False
    then have "x = sock_id sock \<and> (c = LeaveTopic r \<or> c = Disconnect)"
      using Cons.prems(1) by (intro removed_by_handle)
    then show ?thesis using a by auto
  qed
qed

text \<open>
  C4, in the form that holds of the code. A successful \<open>join-topic\<close> adds the socket to
  the room of the new topic, sets \<open>currentTopic\<close> to it and tells the rest of that room
  that the user joined; every other room keeps its sockets and no "user left" event is
  emitted. \<open>leave-topic\<close> takes the socket out of the named room and tells the rest of
  that room that the user left; a disconnect takes it out of every room. No other handler
  removes a socket from a room: over one command, and over any run of commands, a socket
  that was in a room and is no longer there has itself sent \<open>leave-topic\<close> for that room
  or has disconnected.
\<close>

theorem join_topic_keeps_other_rooms:
  assumes "topics s topicId = Some t" and "hasAccess t (user_id sock)"
  shows "rooms (join_topic sock topicId s) = (rooms s)(topicId := insert (sock_id sock) (rooms s topicId)) \<and>
         (\<forall>r. r \<noteq> topicId \<longrightarrow> rooms (join_topic sock topicId s) r = rooms s r) \<and>
         currentTopic (join_topic sock topicId s) = (currentTopic s)(sock_id sock \<mapsto> topicId) \<and>
         outbox (join_topic sock topicId s) =
           outbox s @ [(rooms s topicId - {sock_id sock},
                        UserJoinedTopic (user_id sock) (username sock))] \<and>
         rooms (leave_topic sock r' s) = (rooms s)(r' := rooms s r' - {sock_id sock}) \<and>
         outbox (leave_topic sock r' s) =
           outbox s @ [(rooms s r' - {sock_id sock}, UserLeftTopic (user_id sock) (username sock))] \<and>
         rooms (disconnect sock s) = (\<lambda>r. rooms s r - {sock_id sock}) \<and>
         (x \<in> rooms s0 r0 \<and> x \<notin> rooms (handle sock0 c s0) r0 \<longrightarrow>
            x = sock_id sock0 \<and> (c = LeaveTopic r0 \<or> c = Disconnect)) \<and>
         (x \<in> rooms s0 r0 \<and> x \<notin> rooms (run cs s0) r0 \<longrightarrow>
            (\<exists>sock1 c1. (sock1, c1) \<in> set cs \<and> x = sock_id sock1 \<and>
                (c1 = LeaveTopic r0 \<or> c1 = Disconnect)))"
proof -
  have j: "rooms (join_topic sock topicId s) = (rooms s)(topicId := insert (sock_id sock) (rooms s topicId)) \<and>
         (\<forall>r. r \<noteq> topicId \<longrightarrow> rooms (join_topic sock topicId s) r = rooms s r) \<and>
         currentTopic (join_topic sock topicId s) = (currentTopic s)(sock_id sock \<mapsto> topicId) \<and>
         outbox (join_topic sock topicId s) =
           outbox s @ [(rooms s topicId - {sock_id sock},
                        UserJoinedTopic (user_id sock) (username sock))]"
    using join_topic_granted[OF assms] by simp
  have l: "rooms (leave_topic sock r' s) = (rooms s)(r' := rooms s r' - {sock_id sock}) \<and>
         outbox (leave_topic sock r' s) =
           outbox s @ [(rooms s r' - {sock_id sock}, UserLeftTopic (user_id sock) (username sock))]"
    by (simp add: leave_topic_def emit_def Let_def)
  have d: "rooms (disconnect sock s) = (\<lambda>r. rooms s r - {sock_id sock})"
    by (rule rooms_disconnect)
  have h: "x \<in> rooms s0 r0 \<and> x \<notin> rooms (handle sock0 c s0) r0 \<longrightarrow>
            x = sock_id sock0 \<and> (c = LeaveTopic r0 \<or> c = Disconnect)"
    using removed_by_handle[of x s0 r0 sock0 c] by blast
  have r: "x \<in> rooms s0 r0 \<and> x \<notin> rooms (run cs s0) r0 \<longrightarrow>
            (\<exists>sock1 c1. (sock1, c1) \<in> set cs \<and> x = sock_id sock1 \<and>
                (c1 = LeaveTopic r0 \<or> c1 = Disconnect))"
    using removed_by_run[of x s0 r0 cs] by blast
  show ?thesis
    using j l d h r by blast
qed

theorem join_topic_keeps_other_rooms_witness:
  "rooms (join_topic bob 2 demo) = (rooms demo)(2 := {11}) \<and>
   rooms (join_topic bob 2 demo) 1 = {11} \<and>
   currentTopic (join_topic bob 2 demo) 11 = Some 2 \<and>
   rooms (leave_topic bob 1 demo) 1 = {} \<and>
   rooms (disconnect bob demo) 1 = {} \<and>
   11 \<in> rooms demo 1 \<and> 11 \<notin> rooms (handle bob (LeaveTopic 1) demo) 1 \<and>
   11 \<notin> rooms (run [(bob, JoinTopic 2), (bob, Disconnect)] demo) 1"
proof -
  have t: "topics demo 2 = Some vault" "hasAccess vault (user_id bob)"
    by (simp_all add: demo_def vault_def bob_def hasAccess_def)
  have h: "11 \<notin> rooms (handle bob (LeaveTopic 1) demo) 1"
    by (simp add: leave_topic_def emit_def Let_def demo_def bob_def)
  have r: "11 \<notin> rooms (run [(bob, JoinTopic 2), (bob, Disconnect)] demo) 1"
    by (simp add: run_def join_topic_def disconnect_def emit_def Let_def hasAccess_def
        demo_def vault_def bob_def)
  show ?thesis
    using join_topic_keeps_other_rooms[OF t, where r' = 1 and x = 11 and ?s0.0 = demo
        and ?r0.0 = 1 and ?sock0.0 = bob and c = "LeaveTopic 1"
        and cs = "[(bob, JoinTopic 2), (bob, Disconnect)]"] h r
    by (simp add: demo_def bob_def)
qed

text \<open>
  Bob's socket is in the room of topic 1 and joins topic 2: afterwards it is in both rooms,
  and the only event emitted is the "user joined" of topic 2.
\<close>

theorem join_second_room_counterexample:
  "currentTopic demo (sock_id bob) = Some 1 \<and>
   sock_id bob \<in> rooms (join_topic bob 2 demo) 1 \<and>
   sock_id bob \<in> rooms (join_topic bob 2 demo) 2 \<and>
   outbox (join_topic bob 2 demo) = [({}, UserJoinedTopic 2 (username bob))]"
  by (simp add: demo_def vault_def bob_def hasAccess_def join_topic_def emit_def Let_def)

section \<open>Sending a message\<close>

lemma send_message_empty:
  "trim c = [] \<Longrightarrow>
   send_message sock c t r newId saved touched s =
     emit {sock_id sock} (MessageError ''Message content cannot be empty'') s"
  by (simp add: send_message_def)

lemma send_message_long:
  "trim c \<noteq> [] \<Longrightarrow> length c > 1000 \<Longrightarrow>
   send_message sock c t r newId saved touched s =
     emit {sock_id sock} (MessageError ''Message too long (max 1000 characters)'') s"
  by (auto simp: send_message_def trim_def)

lemma send_message_no_topic:
  "trim c \<noteq> [] \<Longrightarrow> length c \<le> 1000 \<Longrightarrow> topics s t = None \<Longrightarrow>
   send_message sock c t r newId saved touched s =
     emit {sock_id sock} (MessageError ''Topic not found'') s"
  by (auto simp: send_message_def trim_def)

lemma send_message_denied:
  "trim c \<noteq> [] \<Longrightarrow> length c \<le> 1000 \<Longrightarrow> topics s t = Some tp \<Longrightarrow> \<not> hasAccess tp (user_id sock) \<Longrightarrow>
   send_message sock c t r newId saved touched s =
     emit {sock_id sock} (MessageError ''Access denied to this topic'') s"
  by (auto simp: send_message_def trim_def)

lemma send_message_success:
  assumes "trim c \<noteq> []" "length c \<le> 1000" "topics s t = Some tp" "hasAccess tp (user_id sock)"
  shows "send_message sock c t r newId saved touched s =
     s\<lparr>messages := (messages s)(newId \<mapsto>
            \<lparr>content = trim c, sender = user_id sock, topic = t, messageType = TextType,
             isEdited = False, editedAt = None, replyTo = r, reactions = [],
             createdAt = saved, updatedAt = saved\<rparr>),
       topics := (topics s)(t \<mapsto> tp\<lparr>topic_updatedAt := touched\<rparr>),
       outbox := outbox s @ [(rooms s t, NewMessage newId
            \<lparr>content = trim c, sender = user_id sock, topic = t, messageType = TextType,
             isEdited = False, editedAt = None, replyTo = r, reactions = [],
             createdAt = saved, updatedAt = saved\<rparr>)]\<rparr>"
proof -
  have c: "c \<noteq> []" using assms(1) by (auto simp: trim_def)
  have v: "valid_content (trim c)" using assms(1,2) by (rule valid_trim)
  show ?thesis
    using assms c v by (simp add: send_message_def emit_def Let_def)
qed

text \<open>
  C1, in the form that holds of the code. A send with content that passes the checks, to
  an existing topic the user has access to, stores the message and emits one
  \<open>new-message\<close> event, addressed to exactly the sockets in the room of the
  topic named in the command. The sender's socket receives it if and only if it is in that
  room: nothing is excluded from the room, and nothing is added to it.
\<close>

theorem send_message_fanout:
  assumes "trim c \<noteq> []" and "length c \<le> 1000"
    and "topics s t = Some tp" and "hasAccess tp (user_id sock)"
  shows "\<exists>m. messages (send_message sock c t r newId saved touched s) newId = Some m \<and>
           outbox (send_message sock c t r newId saved touched s) =
             outbox s @ [(rooms s t, NewMessage newId m)] \<and>
           (sock_id sock \<in> fst (last (outbox (send_message sock c t r newId saved touched s)))
              \<longleftrightarrow> sock_id sock \<in> rooms s t)"
  using send_message_success[OF assms] by simp

theorem send_message_fanout_witness:
  "\<exists>m. messages (send_message bob hi 1 None 8 2000 2001 demo) 8 = Some m \<and>
       outbox (send_message bob hi 1 None 8 2000 2001 demo) = [({11}, NewMessage 8 m)] \<and>
       sock_id bob \<in> fst (last (outbox (send_message bob hi 1 None 8 2000 2001 demo)))"
  using send_message_fanout[of hi demo 1 lobby bob None 8 2000 2001]
  by (simp add: demo_def lobby_def bob_def hi_def hasAccess_def trim_def is_ws_def)

text \<open>
  Alice's socket is in no room and sends to topic 1: the message is stored, the event goes
  to Bob's socket only, and Alice's socket is not among the receivers.
\<close>

theorem send_not_joined_counterexample:
  "messages (send_message alice hi 1 None 8 2000 2001 demo) 8 \<noteq> None \<and>
   outbox (send_message alice hi 1 None 8 2000 2001 demo) =
     [({sock_id bob}, NewMessage 8 (the (messages (send_message alice hi 1 None 8 2000 2001 demo) 8)))] \<and>
   sock_id alice \<notin> {sock_id bob}"
  by (simp add: send_message_def demo_def lobby_def alice_def bob_def hi_def hasAccess_def
      trim_def is_ws_def valid_content_def emit_def Let_def)

text \<open>
  C3, in the form that holds of the code. The send handler never reads
  \<open>currentTopic\<close>: its outcome is the same whatever that property holds. In
  particular a socket whose \<open>currentTopic\<close> is not set, sending content that
  passes the checks to an existing topic its user has access to, gets the message stored
  and broadcast to the room of that topic.
\<close>

theorem send_message_ignores_currentTopic:
  "send_message sock c t r newId saved touched (s\<lparr>currentTopic := ct\<rparr>) =
     (send_message sock c t r newId saved touched s)\<lparr>currentTopic := ct\<rparr> \<and>
   (currentTopic s (sock_id sock) = None \<and> trim c \<noteq> [] \<and> length c \<le> 1000 \<and>
    topics s t = Some tp \<and> hasAccess tp (user_id sock) \<longrightarrow>
      (\<exists>m. messages (send_message sock c t r newId saved touched s) newId = Some m \<and>
           content m = trim c \<and> sender m = user_id sock \<and> topic m = t \<and>
           outbox (send_message sock c t r newId saved touched s) =
             outbox s @ [(rooms s t, NewMessage newId m)]))"
proof
  show "send_message sock c t r newId saved touched (s\<lparr>currentTopic := ct\<rparr>) =
     (send_message sock c t r newId saved touched s)\<lparr>currentTopic := ct\<rparr>"
    by (simp add: send_message_def emit_def Let_def split: option.splits)
next
  show "currentTopic s (sock_id sock) = None \<and> trim c \<noteq> [] \<and> length c \<le> 1000 \<and>
    topics s t = Some tp \<and> hasAccess tp (user_id sock) \<longrightarrow>
      (\<exists>m. messages (send_message sock c t r newId saved touched s) newId = Some m \<and>
           content m = trim c \<and> sender m = user_id sock \<and> topic m = t \<and>
           outbox (send_message sock c t r newId saved touched s) =
             outbox s @ [(rooms s t, NewMessage newId m)])"
    using send_message_success[of c s t tp sock r newId saved touched] by simp
qed

theorem send_message_ignores_currentTopic_witness:
  "currentTopic demo (sock_id alice) = None \<and>
   (\<exists>m. messages (send_message alice hi 1 None 8 2000 2001 demo) 8 = Some m \<and>
        content m = hi \<and> sender m = 1 \<and> topic m = 1 \<and>
        outbox (send_message alice hi 1 None 8 2000 2001 demo) = [({11}, NewMessage 8 m)])"
  using send_message_ignores_currentTopic[where sock = alice and c = hi and t = 1 and r = None
      and newId = 8 and saved = 2000 and touched = 2001 and s = demo and tp = lobby
      and ct = Map.empty, THEN conjunct2]
  by (simp add: demo_def lobby_def alice_def hi_def hasAccess_def trim_def is_ws_def)

text \<open>
  Alice's socket has no \<open>currentTopic\<close>; its send stores message 8 and emits an event.
\<close>

theorem send_without_currentTopic_counterexample:
  "currentTopic demo (sock_id alice) = None \<and>
   messages demo 8 = None \<and>
   messages (send_message alice hi 1 None 8 2000 2001 demo) 8 \<noteq> None \<and>
   outbox (send_message alice hi 1 None 8 2000 2001 demo) \<noteq> outbox demo"
  by (simp add: send_message_def demo_def lobby_def alice_def hi_def hasAccess_def
      trim_def is_ws_def valid_content_def emit_def Let_def)

lemma outbox_emit: "outbox (emit A e s) = outbox s @ [(A, e)]"
  by (simp add: emit_def)

lemma messages_emit: "messages (emit A e s) = messages s"
  by (simp add: emit_def)

lemma trim_padded:
  assumes "\<not> is_ws a" and "is_ws w"
  shows "trim (a # replicate n w) = [a]"
proof -
  have "dropWhile is_ws (replicate n w @ [a]) = dropWhile is_ws [a]"
    using assms(2) by (intro dropWhile_append2) simp
  then show ?thesis
    using assms(1) by (simp add: trim_def)
qed

lemma is_ws_space: "is_ws 0x20"
  by (simp add: is_ws_def)

lemma not_ws_a: "\<not> is_ws 0x61"
  by (simp add: is_ws_def)

text \<open>
  C9, in the form that holds of the code. The send handler answers with one of its two
  content errors exactly when the trimmed content is empty or the untrimmed content is
  longer than 1000 code units. Content that passes, sent to an existing topic the user has
  access to, is stored trimmed, and the stored content has between 1 and 1000 code units.
\<close>

theorem send_message_content_check:
  "((send_message sock c t r newId saved touched s =
       emit {sock_id sock} (MessageError ''Message content cannot be empty'') s \<or>
     send_message sock c t r newId saved touched s =
       emit {sock_id sock} (MessageError ''Message too long (max 1000 characters)'') s)
    \<longleftrightarrow> (trim c = [] \<or> length c > 1000)) \<and>
   (trim c \<noteq> [] \<and> length c \<le> 1000 \<and> topics s t = Some tp \<and> hasAccess tp (user_id sock) \<longrightarrow>
      (\<exists>m. messages (send_message sock c t r newId saved touched s) newId = Some m \<and>
           content m = trim c \<and> 1 \<le> length (content m) \<and> length (content m) \<le> 1000))"
proof (intro conjI iffI impI)
  assume "trim c = [] \<or> length c > 1000"
  then show "send_message sock c t r newId saved touched s =
       emit {sock_id sock} (MessageError ''Message content cannot be empty'') s \<or>
     send_message sock c t r newId saved touched s =
       emit {sock_id sock} (MessageError ''Message too long (max 1000 characters)'') s"
    using send_message_empty[of c sock t r newId saved touched s]
      send_message_long[of c sock t r newId saved touched s]
    by blast
next
  let ?s' = "send_message sock c t r newId saved touched s"
  assume e: "?s' = emit {sock_id sock} (MessageError ''Message content cannot be empty'') s \<or>
     ?s' = emit {sock_id sock} (MessageError ''Message too long (max 1000 characters)'') s"
  then have o: "outbox ?s' = outbox s @ [({sock_id sock}, MessageError ''Message content cannot be empty'')] \<or>
     outbox ?s' = outbox s @ [({sock_id sock}, MessageError ''Message too long (max 1000 characters)'')]"
    by (auto simp: outbox_emit)
  show "trim c = [] \<or> length c > 1000"
  proof (rule ccontr)
    assume "\<not> (trim c = [] \<or> length c > 1000)"
    then have n: "trim c \<noteq> []" and l: "length c \<le> 1000" by auto
    show False
    proof (cases "topics s t")
      case None
      then show ?thesis
        using o send_message_no_topic[OF n l None, of sock r newId saved touched]
        by (simp add: outbox_emit)
    next
      case (Some tp)
      show ?thesis
      proof (cases "hasAccess tp (user_id sock)")
        case True
        then show ?thesis
          using o send_message_success[OF n l Some True, of r newId saved touched] by simp
      next
        case False
        then show ?thesis
          using o send_message_denied[OF n l Some False, of r newId saved touched]
          by (simp add: outbox_emit)
      qed
    qed
  qed
next
  assume a: "trim c \<noteq> [] \<and> length c \<le> 1000 \<and> topics s t = Some tp \<and> hasAccess tp (user_id sock)"
  then have "length (trim c) \<le> 1000" "1 \<le> length (trim c)"
    using length_trim[of c] by (auto simp: Suc_le_eq)
  then show "\<exists>m. messages (send_message sock c t r newId saved touched s) newId = Some m \<and>
           content m = trim c \<and> 1 \<le> length (content m) \<and> length (content m) \<le> 1000"
    using a send_message_success[of c s t tp sock r newId saved touched] by simp
qed

theorem send_message_content_check_witness:
  "(send_message alice [0x20, 0x09] 1 None 8 2000 2001 demo =
      emit {sock_id alice} (MessageError ''Message content cannot be empty'') demo \<or>
    send_message alice [0x20, 0x09] 1 None 8 2000 2001 demo =
      emit {sock_id alice} (MessageError ''Message too long (max 1000 characters)'') demo) \<and>
   (\<exists>m. messages (send_message alice [0x20, 0x68, 0x69, 0x0A] 1 None 8 2000 2001 demo) 8 = Some m \<and>
        content m = hi \<and> 1 \<le> length (content m) \<and> length (content m) \<le> 1000)"
proof -
  have 1: "trim [0x20, 0x09] = []"
    by (simp add: trim_def is_ws_def)
  have 2: "trim [0x20, 0x68, 0x69, 0x0A] = hi"
    by (simp add: trim_def is_ws_def hi_def)
  have 3: "topics demo 1 = Some lobby" "hasAccess lobby (user_id alice)"
    by (simp_all add: demo_def lobby_def hasAccess_def)
  have 4: "hi \<noteq> []"
    by (simp add: hi_def)
  show ?thesis
    using send_message_content_check[of alice "[0x20, 0x09]" 1 None 8 2000 2001 demo lobby]
      send_message_content_check[of alice "[0x20, 0x68, 0x69, 0x0A]" 1 None 8 2000 2001 demo lobby]
    unfolding 1 2 using 3 4 by simp
qed

text \<open>
  The trimmed content has one code unit, the user has access to the topic, and yet the
  send is refused as too long and nothing is stored.
\<close>

theorem send_padded_counterexample:
  "length (trim padded) = 1 \<and>
   topics demo 1 = Some lobby \<and> hasAccess lobby (user_id alice) \<and>
   send_message alice padded 1 None 8 2000 2001 demo =
     emit {sock_id alice} (MessageError ''Message too long (max 1000 characters)'') demo \<and>
   messages (send_message alice padded 1 None 8 2000 2001 demo) 8 = None"
proof -
  have t: "trim padded = [0x61]"
    unfolding padded_def using not_ws_a is_ws_space by (rule trim_padded)
  have l: "length padded > 1000"
    by (simp add: padded_def)
  have n: "trim padded \<noteq> []"
    by (simp add: t)
  have "send_message alice padded 1 None 8 2000 2001 demo =
     emit {sock_id alice} (MessageError ''Message too long (max 1000 characters)'') demo"
    using n l by (rule send_message_long)
  then show ?thesis
    by (simp add: t messages_emit) (simp add: demo_def lobby_def hasAccess_def)
qed

section \<open>Editing a message\<close>

lemma editMessage_too_old:
  assumes "messages s messageId = Some m" "sender m = u" "now - createdAt m > 15 * 60 * 1000"
  shows "editMessage u messageId c now edited saved s = (s, Failure 400 ''Message is too old to edit'')"
  using assms by (simp add: editMessage_def Let_def)

lemma editMessage_invalid:
  assumes "messages s messageId = Some m" "sender m = u" "now - createdAt m \<le> 15 * 60 * 1000"
    "\<not> valid_content (trim c)"
  shows "editMessage u messageId c now edited saved s = (s, ServerError)"
  using assms by (simp add: editMessage_def Let_def)

lemma editMessage_ok:
  assumes "messages s messageId = Some m" "sender m = u" "now - createdAt m \<le> 15 * 60 * 1000"
    "valid_content (trim c)"
  shows "editMessage u messageId c now edited saved s =
           (s\<lparr>messages := (messages s)(messageId \<mapsto>
                m\<lparr>content := trim c, isEdited := True, editedAt := Some edited, updatedAt := saved\<rparr>)\<rparr>,
            EditOk (m\<lparr>content := trim c, isEdited := True, editedAt := Some edited, updatedAt := saved\<rparr>))"
  using assms by (simp add: editMessage_def Let_def)

text \<open>
  C8, in the form that holds of the code. For a stored message and its author: the edit is
  refused with "Message is too old to edit" exactly when \<open>now - createdAt\<close>
  exceeds 15 minutes, and the store is then unchanged. An edit inside the window whose
  trimmed content passes the schema (1 to 1000 code units) succeeds; a successful edit
  stores the trimmed new content, sets \<open>isEdited\<close>, and sets
  \<open>editedAt\<close> to the time of the edit. The same holds through the route, whose
  sanitizer trims the body first.
\<close>

theorem editMessage_window:
  assumes "messages s messageId = Some m" and "sender m = u"
  shows "(snd (editMessage u messageId c now edited saved s) = Failure 400 ''Message is too old to edit''
            \<longleftrightarrow> now - createdAt m > 15 * 60 * 1000) \<and>
         (now - createdAt m > 15 * 60 * 1000 \<longrightarrow> fst (editMessage u messageId c now edited saved s) = s) \<and>
         (now - createdAt m \<le> 15 * 60 * 1000 \<and> valid_content (trim c) \<longrightarrow>
            (\<exists>m'. snd (editMessage u messageId c now edited saved s) = EditOk m')) \<and>
         (\<forall>m'. snd (editMessage u messageId c now edited saved s) = EditOk m' \<longrightarrow>
            messages (fst (editMessage u messageId c now edited saved s)) messageId = Some m' \<and>
            content m' = trim c \<and> isEdited m' \<and> editedAt m' = Some edited \<and>
            createdAt m' = createdAt m \<and> sender m' = sender m) \<and>
         (\<forall>m'. snd (put_message u messageId c now edited saved s) = EditOk m' \<longrightarrow>
            messages (fst (put_message u messageId c now edited saved s)) messageId = Some m' \<and>
            content m' = trim c \<and> isEdited m' \<and> editedAt m' = Some edited)"
proof -
  consider (old) "now - createdAt m > 15 * 60 * 1000"
    | (bad) "now - createdAt m \<le> 15 * 60 * 1000" "\<not> valid_content (trim c)"
    | (ok) "now - createdAt m \<le> 15 * 60 * 1000" "valid_content (trim c)"
    by linarith
  then show ?thesis
  proof cases
    case old
    show ?thesis
      using old editMessage_too_old[OF assms old, of c edited saved]
        editMessage_too_old[OF assms old, of "trim c" edited saved]
      by (simp add: put_message_def)
  next
    case bad
    show ?thesis
      using bad editMessage_invalid[OF assms bad, of edited saved]
        editMessage_invalid[OF assms bad(1), of "trim c" edited saved]
      by (simp add: put_message_def trim_trim)
  next
    case ok
    show ?thesis
      using ok editMessage_ok[OF assms ok, of edited saved]
        editMessage_ok[OF assms ok(1), of "trim c" edited saved]
      by (simp add: put_message_def trim_trim)
  qed
qed

theorem editMessage_window_witness:
  "(\<exists>m'. snd (editMessage 1 7 hi (1000 + 899000) 900001 900002 demo) = EditOk m') \<and>
   (\<exists>m'. snd (editMessage 1 7 hi (1000 + 900000) 901001 901002 demo) = EditOk m') \<and>
   snd (editMessage 1 7 hi (1000 + 901000) 902001 902002 demo) = Failure 400 ''Message is too old to edit'' \<and>
   fst (editMessage 1 7 hi (1000 + 901000) 902001 902002 demo) = demo"
proof -
  have m: "messages demo 7 = Some hello" "sender hello = 1"
    by (simp_all add: demo_def hello_def)
  have v: "valid_content (trim hi)"
    by (simp add: valid_content_def trim_def hi_def is_ws_def)
  have c: "createdAt hello = 1000"
    by (simp add: hello_def)
  show ?thesis
    using editMessage_window[OF m, of hi "1000 + 899000" 900001 900002]
      editMessage_window[OF m, of hi "1000 + 900000" 901001 901002]
      editMessage_window[OF m, of hi "1000 + 901000" 902001 902002]
      v c
    by simp
qed

text \<open>
  Inside the window, the author's new content " yo" is stored as "yo", and new content
  consisting of one space is refused by the schema, with status 500.
\<close>

theorem edit_trimmed_counterexample:
  "snd (put_message 1 7 [0x20, 0x79, 0x6F] 2000 2001 2002 demo) =
     EditOk (hello\<lparr>content := [0x79, 0x6F], isEdited := True, editedAt := Some 2001, updatedAt := 2002\<rparr>) \<and>
   [0x79, 0x6F] \<noteq> [0x20, 0x79, 0x6F :: 16 word] \<and>
   2000 - createdAt hello \<le> 14 * 60 * 1000 + 59 * 1000 \<and>
   put_message 1 7 [0x20] 2000 2001 2002 demo = (demo, ServerError)"
  by (simp add: put_message_def editMessage_def demo_def hello_def trim_def is_ws_def
      valid_content_def Let_def)

section \<open>Deleting a message\<close>

text \<open>
  C6, in the form that holds of the code. For a stored message whose topic exists: the
  delete succeeds exactly when the caller is the sender of the message or an admin of its
  topic, and is refused with "Not authorized to delete this message" otherwise. On success
  the message is removed from the store. Nothing is emitted to any socket in either case.
\<close>

theorem deleteMessage_authorization:
  assumes "messages s messageId = Some m" and "topics s (topic m) = Some t"
  shows "(snd (deleteMessage u messageId s) = DeleteOk \<longleftrightarrow> sender m = u \<or> u \<in> set (admins t)) \<and>
         (\<not> (sender m = u \<or> u \<in> set (admins t)) \<longrightarrow>
            deleteMessage u messageId s = (s, Failure 403 ''Not authorized to delete this message'')) \<and>
         (sender m = u \<or> u \<in> set (admins t) \<longrightarrow>
            fst (deleteMessage u messageId s) = s\<lparr>messages := (messages s)(messageId := None)\<rparr>) \<and>
         outbox (fst (deleteMessage u messageId s)) = outbox s"
  using assms by (auto simp: deleteMessage_def Let_def)

theorem deleteMessage_authorization_witness:
  "snd (deleteMessage 1 7 demo) = DeleteOk \<and>
   snd (deleteMessage 2 7 demo) = DeleteOk \<and>
   deleteMessage 3 7 demo = (demo, Failure 403 ''Not authorized to delete this message'') \<and>
   messages (fst (deleteMessage 2 7 demo)) 7 = None"
proof -
  have m: "messages demo 7 = Some hello" "topics demo (topic hello) = Some lobby"
    by (simp_all add: demo_def hello_def)
  show ?thesis
    using deleteMessage_authorization[OF m, of 1] deleteMessage_authorization[OF m, of 2]
      deleteMessage_authorization[OF m, of 3]
    by (simp add: hello_def lobby_def)
qed

text \<open>
  Alice deletes her message in topic 1 while Bob's socket is in the room of that topic:
  the message is gone from the store and no event has been emitted.
\<close>

theorem delete_no_broadcast_counterexample:
  "snd (deleteMessage (user_id alice) 7 demo) = DeleteOk \<and>
   messages (fst (deleteMessage (user_id alice) 7 demo)) 7 = None \<and>
   topic hello = 1 \<and> sock_id bob \<in> rooms demo 1 \<and>
   outbox (fst (deleteMessage (user_id alice) 7 demo)) = []"
  by (simp add: deleteMessage_def demo_def hello_def lobby_def alice_def bob_def Let_def)

section \<open>Typing indicators\<close>

lemma count_emit:
  "stop_typing_count (emit A e s) = stop_typing_count s + (if is_stop_typing (A, e) then 1 else 0)"
  by (simp add: stop_typing_count_def emit_def)

lemma count_join_topic: "stop_typing_count (join_topic sock t s) = stop_typing_count s"
  by (simp add: join_topic_def Let_def stop_typing_count_def emit_def split: option.splits)

lemma count_leave_topic: "stop_typing_count (leave_topic sock t s) = stop_typing_count s"
  by (simp add: leave_topic_def Let_def stop_typing_count_def emit_def)

lemma count_send_message:
  "stop_typing_count (send_message sock c t r newId saved touched s) = stop_typing_count s"
  by (simp add: send_message_def Let_def stop_typing_count_def emit_def split: option.splits)

lemma count_typing_start: "stop_typing_count (typing_start sock t s) = stop_typing_count s"
  by (simp add: typing_start_def count_emit)

lemma count_typing_stop: "stop_typing_count (typing_stop sock t s) = stop_typing_count s + 1"
  by (simp add: typing_stop_def count_emit)

lemma count_add_reaction:
  "stop_typing_count (add_reaction sock m e now saved s) = stop_typing_count s"
  by (simp add: add_reaction_def Let_def stop_typing_count_def emit_def split: option.splits)

lemma count_disconnect: "stop_typing_count (disconnect sock s) = stop_typing_count s"
  by (simp add: disconnect_def Let_def stop_typing_count_def emit_def split: option.splits)

lemma count_handle:
  "stop_typing_count (handle sock c s) =
     stop_typing_count s + (if is_typing_stop_command (sock, c) then 1 else 0)"
  by (cases c)
    (simp_all add: count_join_topic count_leave_topic count_send_message count_typing_start
      count_typing_stop count_add_reaction count_disconnect)

lemma count_run:
  "stop_typing_count (run cs s) = stop_typing_count s + length (filter is_typing_stop_command cs)"
proof (induction cs arbitrary: s)
  case Nil
  show ?case by (simp add: run_def)
next
  case (Cons a cs)
  obtain sock c where a: "a = (sock, c)" by (cases a)
  have "run (a # cs) s = run cs (handle sock c s)"
    by (simp add: run_def a)
  then show ?case
    using Cons.IH[of "handle sock c s"] count_handle[of sock c s] by (simp add: a)
qed

lemma stop_keeps_socketRef: "socketRef (fst (handleTypingStop env r)) = socketRef r"
  by (simp add: handleTypingStop_def split: option.splits)

lemma stop_cases:
  "(isTypingRef r \<and> connected env \<and> chatTopic env \<noteq> None \<and>
      \<not> isTypingRef (fst (handleTypingStop env r)) \<and>
      snd (handleTypingStop env r) =
        (if socketRef r then [EmitTypingStop (the (chatTopic env))] else [])) \<or>
   (\<not> (isTypingRef r \<and> connected env \<and> chatTopic env \<noteq> None) \<and>
      isTypingRef (fst (handleTypingStop env r)) = isTypingRef r \<and>
      snd (handleTypingStop env r) = [])"
  by (auto simp: handleTypingStop_def stopTyping_def split: option.splits)

lemma stop_all_idle: "\<not> isTypingRef r \<Longrightarrow> snd (stop_all envs r) = []"
proof (induction envs arbitrary: r)
  case Nil
  show ?case by simp
next
  case (Cons env envs)
  have "\<not> isTypingRef (fst (handleTypingStop env r))" "snd (handleTypingStop env r) = []"
    using Cons.prems stop_cases[of r env] by auto
  then show ?case
    using Cons.IH[of "fst (handleTypingStop env r)"] by simp
qed

lemma stop_all_at_most_once: "length (snd (stop_all envs r)) \<le> 1"
proof (induction envs arbitrary: r)
  case Nil
  show ?case by simp
next
  case (Cons env envs)
  show ?case
  proof (cases "isTypingRef r \<and> connected env \<and> chatTopic env \<noteq> None")
    case True
    then have "\<not> isTypingRef (fst (handleTypingStop env r))"
      and "length (snd (handleTypingStop env r)) \<le> 1"
      using stop_cases[of r env] by auto
    then show ?thesis
      using stop_all_idle[of "fst (handleTypingStop env r)" envs] by simp
  next
    case False
    then have "snd (handleTypingStop env r) = []"
      using stop_cases[of r env] by auto
    then show ?thesis
      using Cons.IH[of "fst (handleTypingStop env r)"] by simp
  qed
qed

lemma stop_all_no_socket: "\<not> socketRef r \<Longrightarrow> snd (stop_all envs r) = []"
proof (induction envs arbitrary: r)
  case Nil
  show ?case by simp
next
  case (Cons env envs)
  have "snd (handleTypingStop env r) = []"
    using Cons.prems stop_cases[of r env] by auto
  moreover have "\<not> socketRef (fst (handleTypingStop env r))"
    using Cons.prems by (simp add: stop_keeps_socketRef)
  ultimately show ?case
    using Cons.IH[of "fst (handleTypingStop env r)"] by simp
qed

lemma stop_all_no_live:
  "\<forall>env \<in> set envs. \<not> connected env \<or> chatTopic env = None \<Longrightarrow> snd (stop_all envs r) = []"
proof (induction envs arbitrary: r)
  case Nil
  show ?case by simp
next
  case (Cons env envs)
  have "snd (handleTypingStop env r) = []"
    using Cons.prems stop_cases[of r env] by auto
  then show ?case
    using Cons.prems Cons.IH[of "fst (handleTypingStop env r)"] by simp
qed

lemma stop_all_once:
  "isTypingRef r \<Longrightarrow> socketRef r \<Longrightarrow> \<exists>env \<in> set envs. connected env \<and> chatTopic env \<noteq> None \<Longrightarrow>
   \<exists>t' env. env \<in> set envs \<and> connected env \<and> chatTopic env = Some t' \<and>
      snd (stop_all envs r) = [EmitTypingStop t']"
proof (induction envs arbitrary: r)
  case Nil
  then show ?case by simp
next
  case (Cons env envs)
  show ?case
  proof (cases "connected env \<and> chatTopic env \<noteq> None")
    case True
    then obtain t' where t': "chatTopic env = Some t'" by auto
    have "\<not> isTypingRef (fst (handleTypingStop env r))"
      and "snd (handleTypingStop env r) = [EmitTypingStop t']"
      using True t' Cons.prems(1,2) stop_cases[of r env] by auto
    then have "snd (stop_all (env # envs) r) = [EmitTypingStop t']"
      using stop_all_idle[of "fst (handleTypingStop env r)" envs] by simp
    then show ?thesis using True t' by auto
  next
    case False
    then have s: "snd (handleTypingStop env r) = []"
      and i: "isTypingRef (fst (handleTypingStop env r))"
      using Cons.prems(1) stop_cases[of r env] by auto
    have k: "socketRef (fst (handleTypingStop env r))"
      using Cons.prems(2) by (simp add: stop_keeps_socketRef)
    have e: "\<exists>env \<in> set envs. connected env \<and> chatTopic env \<noteq> None"
      using Cons.prems(3) False by auto
    obtain t' env' where "env' \<in> set envs" "connected env'" "chatTopic env' = Some t'"
      "snd (stop_all envs (fst (handleTypingStop env r))) = [EmitTypingStop t']"
      using Cons.IH[OF i k e] by blast
    then show ?thesis using s by auto
  qed
qed

lemma count_deliver_stops:
  "stop_typing_count (deliver sock es s) =
     stop_typing_count s + length (filter (\<lambda>e. \<exists>t. e = EmitTypingStop t) es)"
proof -
  have "filter is_typing_stop_command (map (\<lambda>e. (sock, client_command e)) es) =
        map (\<lambda>e. (sock, client_command e)) (filter (\<lambda>e. \<exists>t. e = EmitTypingStop t) es)"
  proof (induction es)
    case Nil
    show ?case by simp
  next
    case (Cons e es)
    then show ?case by (cases e) simp_all
  qed
  then show ?thesis
    by (simp add: deliver_def count_run)
qed

lemma count_deliver_le:
  assumes "length es \<le> 1"
  shows "stop_typing_count (deliver sock es s) \<le> stop_typing_count s + 1"
proof -
  have "length (filter (\<lambda>e. \<exists>t. e = EmitTypingStop t) es) \<le> length es"
    by (rule length_filter_le)
  then have "length (filter (\<lambda>e. \<exists>t. e = EmitTypingStop t) es) \<le> 1"
    using assms by linarith
  then show ?thesis
    by (simp add: count_deliver_stops)
qed

text \<open>
  C7, in the form that holds of the code. The server emits \<open>user-stop-typing\<close> once for
  each \<open>typing-stop\<close> command it handles, to the room without the sender, and at no
  other time: over any run of commands the number of such events grows by the number of
  \<open>typing-stop\<close> commands, and the handlers of \<open>leave-topic\<close> and \<open>disconnect\<close> emit
  none. In the client the inactivity timeout, the explicit stop and the cleanup at unmount
  are all \<open>handleTypingStop\<close>. However often and in whatever renders it runs, it sends
  \<open>typing-stop\<close> at most once, so that the server emits at most one \<open>user-stop-typing\<close>.
  It sends exactly one when the typing flag is set, the socket exists and one of the runs
  is in a render that is connected and has a current topic; the event names the topic of
  such a render. It sends none when the flag is not set, the socket is missing, or no run
  is in such a render. A typing start in a connected render with a topic and a socket
  sets the flag and sends \<open>typing-start\<close>.
\<close>

theorem stop_typing_per_command:
  "stop_typing_count (run cs s) = stop_typing_count s + length (filter is_typing_stop_command cs) \<and>
   outbox (typing_stop sock t s) =
     outbox s @ [(rooms s t - {sock_id sock}, UserStopTyping (user_id sock) (username sock) t)] \<and>
   stop_typing_count (leave_topic sock t s) = stop_typing_count s \<and>
   stop_typing_count (disconnect sock s) = stop_typing_count s \<and>
   length (snd (stop_all envs r)) \<le> 1 \<and>
   stop_typing_count (deliver sock (snd (stop_all envs r)) s) \<le> stop_typing_count s + 1 \<and>
   (isTypingRef r \<and> socketRef r \<and> (\<exists>env \<in> set envs. connected env \<and> chatTopic env \<noteq> None) \<longrightarrow>
      (\<exists>t' env. env \<in> set envs \<and> connected env \<and> chatTopic env = Some t' \<and>
          snd (stop_all envs r) = [EmitTypingStop t']) \<and>
      stop_typing_count (deliver sock (snd (stop_all envs r)) s) = stop_typing_count s + 1) \<and>
   (\<not> isTypingRef r \<or> \<not> socketRef r \<or> (\<forall>env \<in> set envs. \<not> connected env \<or> chatTopic env = None) \<longrightarrow>
      snd (stop_all envs r) = [] \<and>
      stop_typing_count (deliver sock (snd (stop_all envs r)) s) = stop_typing_count s) \<and>
   (\<not> isTypingRef r \<and> socketRef r \<and> connected env \<and> chatTopic env = Some t \<longrightarrow>
      handleTypingStart env r =
        (r\<lparr>isTypingRef := True, typingTimeoutRef := True\<rparr>, [EmitTypingStart t]))"
proof -
  have 1: "stop_typing_count (run cs s) = stop_typing_count s + length (filter is_typing_stop_command cs)"
    by (rule count_run)
  have 2: "outbox (typing_stop sock t s) =
     outbox s @ [(rooms s t - {sock_id sock}, UserStopTyping (user_id sock) (username sock) t)]"
    by (simp add: typing_stop_def emit_def)
  have 3: "stop_typing_count (leave_topic sock t s) = stop_typing_count s"
    by (rule count_leave_topic)
  have 4: "stop_typing_count (disconnect sock s) = stop_typing_count s"
    by (rule count_disconnect)
  have 5: "length (snd (stop_all envs r)) \<le> 1"
    by (rule stop_all_at_most_once)
  have 6: "stop_typing_count (deliver sock (snd (stop_all envs r)) s) \<le> stop_typing_count s + 1"
    using 5 by (rule count_deliver_le)
  have 7: "isTypingRef r \<and> socketRef r \<and> (\<exists>env \<in> set envs. connected env \<and> chatTopic env \<noteq> None) \<longrightarrow>
      (\<exists>t' env. env \<in> set envs \<and> connected env \<and> chatTopic env = Some t' \<and>
          snd (stop_all envs r) = [EmitTypingStop t']) \<and>
      stop_typing_count (deliver sock (snd (stop_all envs r)) s) = stop_typing_count s + 1"
  proof
    assume a: "isTypingRef r \<and> socketRef r \<and> (\<exists>env \<in> set envs. connected env \<and> chatTopic env \<noteq> None)"
    then have e: "\<exists>t' env. env \<in> set envs \<and> connected env \<and> chatTopic env = Some t' \<and>
          snd (stop_all envs r) = [EmitTypingStop t']"
      using stop_all_once[of r envs] by blast
    then obtain t' where "snd (stop_all envs r) = [EmitTypingStop t']" by blast
    then have "stop_typing_count (deliver sock (snd (stop_all envs r)) s) = stop_typing_count s + 1"
      by (simp add: count_deliver_stops)
    with e show "(\<exists>t' env. env \<in> set envs \<and> connected env \<and> chatTopic env = Some t' \<and>
          snd (stop_all envs r) = [EmitTypingStop t']) \<and>
      stop_typing_count (deliver sock (snd (stop_all envs r)) s) = stop_typing_count s + 1"
      by blast
  qed
  have 8: "\<not> isTypingRef r \<or> \<not> socketRef r \<or> (\<forall>env \<in> set envs. \<not> connected env \<or> chatTopic env = None) \<longrightarrow>
      snd (stop_all envs r) = [] \<and>
      stop_typing_count (deliver sock (snd (stop_all envs r)) s) = stop_typing_count s"
  proof
    assume "\<not> isTypingRef r \<or> \<not> socketRef r \<or> (\<forall>env \<in> set envs. \<not> connected env \<or> chatTopic env = None)"
    then have "snd (stop_all envs r) = []"
      using stop_all_idle[of r envs] stop_all_no_socket[of r envs] stop_all_no_live[of envs r]
      by blast
    then show "snd (stop_all envs r) = [] \<and>
      stop_typing_count (deliver sock (snd (stop_all envs r)) s) = stop_typing_count s"
      by (simp add: count_deliver_stops)
  qed
  have 9: "\<not> isTypingRef r \<and> socketRef r \<and> connected env \<and> chatTopic env = Some t \<longrightarrow>
      handleTypingStart env r =
        (r\<lparr>isTypingRef := True, typingTimeoutRef := True\<rparr>, [EmitTypingStart t])"
    by (simp add: handleTypingStart_def startTyping_def)
  show ?thesis
    using 1 2 3 4 5 6 7 8 9 by blast
qed

theorem stop_typing_per_command_witness:
  "outbox (typing_stop alice 1 (join_topic alice 1 demo)) =
     outbox (join_topic alice 1 demo) @ [({11}, UserStopTyping 1 (username alice) 1)] \<and>
   stop_typing_count
     (run [(alice, TypingStart 1), (alice, TypingStop 1), (alice, Disconnect)] (join_topic alice 1 demo)) = 1 \<and>
   snd (stop_all [\<lparr>connected = False, chatTopic = Some 1\<rparr>, \<lparr>connected = True, chatTopic = Some 1\<rparr>,
                  \<lparr>connected = True, chatTopic = Some 1\<rparr>]
          \<lparr>socketRef = True, isTypingRef = True, typingTimeoutRef = True\<rparr>) = [EmitTypingStop 1] \<and>
   stop_typing_count
     (deliver alice
        (snd (stop_all [\<lparr>connected = False, chatTopic = Some 1\<rparr>, \<lparr>connected = True, chatTopic = Some 1\<rparr>,
                        \<lparr>connected = True, chatTopic = Some 1\<rparr>]
                \<lparr>socketRef = True, isTypingRef = True, typingTimeoutRef = True\<rparr>))
        (join_topic alice 1 demo)) = 1"
proof -
  have j: "join_topic alice 1 demo =
             demo\<lparr>rooms := (rooms demo)(1 := {10, 11}), currentTopic := (currentTopic demo)(10 \<mapsto> 1),
                  outbox := [({11}, UserJoinedTopic 1 (username alice))]\<rparr>"
    by (simp add: join_topic_def emit_def Let_def hasAccess_def demo_def lobby_def alice_def
        insert_Diff_if)
  have c: "stop_typing_count (join_topic alice 1 demo) = 0"
    unfolding j by (simp add: stop_typing_count_def)
  have r: "rooms (join_topic alice 1 demo) 1 - {sock_id alice} = {11}"
    unfolding j by (simp add: alice_def insert_Diff_if)
  have u: "user_id alice = 1"
    by (simp add: alice_def)
  have st: "snd (stop_all [\<lparr>connected = False, chatTopic = Some 1\<rparr>, \<lparr>connected = True, chatTopic = Some 1\<rparr>,
                  \<lparr>connected = True, chatTopic = Some 1\<rparr>]
          \<lparr>socketRef = True, isTypingRef = True, typingTimeoutRef = True\<rparr>) = [EmitTypingStop 1]"
    by (simp add: handleTypingStop_def stopTyping_def)
  show ?thesis
    using stop_typing_per_command[where
        cs = "[(alice, TypingStart 1), (alice, TypingStop 1), (alice, Disconnect)]"
        and s = "join_topic alice 1 demo" and sock = alice and t = 1
        and envs = "[\<lparr>connected = False, chatTopic = Some 1\<rparr>, \<lparr>connected = True, chatTopic = Some 1\<rparr>,
                     \<lparr>connected = True, chatTopic = Some 1\<rparr>]"
        and r = "\<lparr>socketRef = True, isTypingRef = True, typingTimeoutRef = True\<rparr>"
        and env = "\<lparr>connected = True, chatTopic = Some 1\<rparr>"]
    unfolding c r u st by simp
qed

text \<open>
  Alice joins topic 1, where Bob's socket is, starts typing and disconnects. Bob's socket
  receives the typing event and the "user left" event, and no \<open>user-stop-typing\<close>.
\<close>

theorem typing_then_disconnect_counterexample:
  "outbox (run [(alice, JoinTopic 1), (alice, TypingStart 1), (alice, Disconnect)] demo) =
     [({sock_id bob}, UserJoinedTopic (user_id alice) (username alice)),
      ({sock_id bob}, UserTyping (user_id alice) (username alice) 1),
      ({sock_id bob}, UserLeftTopic (user_id alice) (username alice))] \<and>
   stop_typing_count (run [(alice, JoinTopic 1), (alice, TypingStart 1), (alice, Disconnect)] demo) = 0"
  by (simp add: run_def stop_typing_count_def join_topic_def typing_start_def disconnect_def
      emit_def hasAccess_def Let_def demo_def lobby_def alice_def bob_def
      insert_Diff_if)

end
